theory Spec2Isabelle
  imports Main
begin

section \<open>Reflection: kinds, types and values\<close>

text \<open>
  The package \<open>rest\<close> inspects its handlers through Go's \<open>reflect\<close> package. A
  \<open>reflect.Kind\<close> is an enumeration; a \<open>reflect.Type\<close> is described here by its kind, its
  name and, for a function type, the types of its inputs and outputs (\<open>NumIn\<close>, \<open>In\<close>,
  \<open>NumOut\<close>, \<open>Out\<close>).
\<close>

text \<open>The kind \<open>reflect.Int\<close> is written \<open>IntKind\<close>.\<close>

datatype kind =
    Invalid | Bool
  | IntKind | Int8 | Int16 | Int32 | Int64
  | Uint | Uint8 | Uint16 | Uint32 | Uint64 | Uintptr
  | Float32 | Float64 | Complex64 | Complex128
  | Array | Chan | Func | Interface | Map | Ptr | Slice | String | Struct
  | UnsafePointer

datatype gotype = GoType (Kind: kind) (Name: string) (In: "gotype list") (Out: "gotype list")

definition NumIn :: "gotype \<Rightarrow> nat" where
  "NumIn t = length (In t)"

definition NumOut :: "gotype \<Rightarrow> nat" where
  "NumOut t = length (Out t)"

text \<open>\<open>reflect.TypeOf((*error)(nil)).Elem()\<close>: the interface type \<open>error\<close>.\<close>

definition errorType :: gotype where
  "errorType = GoType Interface ''error'' [] []"

text \<open>
  \<open>Type.Bits()\<close> of the sized kinds. \<open>int\<close> and \<open>uint\<close> are taken at the 64 bits of a
  64-bit target.
\<close>

fun Bits :: "kind \<Rightarrow> nat" where
  "Bits IntKind = 64" | "Bits Int8 = 8" | "Bits Int16 = 16" | "Bits Int32 = 32" | "Bits Int64 = 64"
| "Bits Uint = 64" | "Bits Uint8 = 8" | "Bits Uint16 = 16" | "Bits Uint32 = 32" | "Bits Uint64 = 64"
| "Bits Uintptr = 64"
| "Bits Float32 = 32" | "Bits Float64 = 64" | "Bits Complex64 = 64" | "Bits Complex128 = 128"
| "Bits _ = 0"

section \<open>Errors\<close>

text \<open>
  A non-nil Go \<open>error\<close> value; an \<open>error\<close> that may be nil is a \<open>goerror option\<close>.
  \<open>NumError f s e\<close> is \<open>&strconv.NumError{Func: f, Num: s, Err: e}\<close>;
  \<open>Errorf fmt args\<close> is the value of \<open>fmt.Errorf(fmt, args...)\<close>, kept unformatted;
  \<open>CodedError c sub\<close> is \<open>&CodedError{Code: c, Sub: sub}\<close>, whose \<open>Sub\<close> may be nil;
  \<open>ErrorString s\<close> is any other error, with its message.
\<close>

datatype numerr = ErrSyntax | ErrRange

text \<open>
  Modelled from the spec: a segment of a templated path, declared outside the files at
  hand: "each either a literal string or a named/positional argument marker".
\<close>

datatype segment = Literal string | Argument string

text \<open>The arguments of a format: strings, integers, kinds, and the path of a route.\<close>

datatype fmtarg = ArgString string | ArgInt int | ArgKind kind | ArgPath "segment list"

datatype goerror =
    ErrorString string
  | NumError string string numerr
  | Errorf string "fmtarg list"
  | CodedError int "goerror option"

text \<open>
  The structured error \<open>Error{Type, Sub}\<close> and its kinds. The types \<open>Error\<close>,
  \<open>ErrorType\<close> and \<open>CodedError\<close> are declared outside the files at hand; their fields
  and constants are the ones that the three files read and build.
\<close>

datatype ErrorType =
    UnmarshalError | MarshalError | HandlerError | UnknownRoute | EndpointError
  | UnsupportedContentType | UnexpectedStatusCode | ReadBodyError
  | NewRequestError | SendRequestError

datatype Error = Error (Type: ErrorType) (Sub: "goerror option")

text \<open>
  Modelled from the spec: \<open>ErrorFmt\<close> is declared outside the files at hand. A structured
  error is "a kind tag drawn from a closed taxonomy and an underlying cause"; the cause
  of \<open>ErrorFmt(t, fmt, args...)\<close> is the formatted message.
\<close>

definition ErrorFmt :: "ErrorType \<Rightarrow> string \<Rightarrow> fmtarg list \<Rightarrow> Error" where
  "ErrorFmt t f args = Error t (Some (Errorf f args))"

text \<open>What a Go panic is raised for, in the order the code can reach them.\<close>

datatype panic =
    ReflectZeroValue
  | NilPointer
  | InvalidHandlerType
  | NotEnoughPathArgs
  | TooManyPathArgs
  | TooManyReturn
  | TooManyErrorReturn
  | TooManyNormalReturn
  | IndexOutOfRange
  | ReflectWrongKind
  | TypeAssertion

section \<open>Values\<close>

text \<open>
  A \<open>reflect.Value\<close>: booleans, integers and strings carry their value, a float its 64
  bits. \<open>VNil k\<close> is the nil value of a type of kind \<open>k\<close> (channel, function, interface,
  map, pointer, slice); \<open>VError e\<close> is a non-nil interface value holding the error \<open>e\<close>;
  \<open>VOther k d\<close> is any other non-nil value of kind \<open>k\<close> (a struct, an array, a non-nil
  pointer, slice or map, ...), with an uninterpreted description of its contents. A
  \<open>[]byte\<close> is the string of its bytes.
\<close>

type_synonym bytes = string

datatype govalue =
    VBool bool
  | VInt kind int
  | VUint kind nat
  | VFloat kind nat
  | VString string
  | VNil kind
  | VError goerror
  | VOther kind string

fun ValueKind :: "govalue \<Rightarrow> kind" where
  "ValueKind (VBool _) = Bool"
| "ValueKind (VInt k _) = k"
| "ValueKind (VUint k _) = k"
| "ValueKind (VFloat k _) = k"
| "ValueKind (VString _) = String"
| "ValueKind (VNil k) = k"
| "ValueKind (VError _) = Interface"
| "ValueKind (VOther k _) = k"

text \<open>
  \<open>Value.IsNil\<close> panics unless the kind is one of channel, function, interface, map,
  pointer, slice or unsafe pointer.
\<close>

definition nillable :: "kind \<Rightarrow> bool" where
  "nillable k = (k \<in> {Chan, Func, Interface, Map, Ptr, Slice, UnsafePointer})"

fun IsNil :: "govalue \<Rightarrow> panic + bool" where
  "IsNil (VNil k) = (if nillable k then Inr True else Inl ReflectWrongKind)"
| "IsNil v = (if nillable (ValueKind v) then Inr False else Inl ReflectWrongKind)"

text \<open>
  \<open>Value.Len\<close> of a string, the one kind the source calls it on; the lengths of
  arrays, channels, maps and slices are not described.
\<close>

fun Len :: "govalue \<Rightarrow> panic + nat" where
  "Len (VString s) = Inr (length s)"
| "Len v = Inl ReflectWrongKind"

section \<open>Path\<close>

text \<open>
  Modelled from the spec: the type \<open>Path\<close> and its method \<open>NumArgs\<close> are declared
  outside the files at hand. A path is an "ordered sequence of segments", and its
  argument count is the "number of argument segments".
\<close>

type_synonym Path = "segment list"

fun isArgument :: "segment \<Rightarrow> bool" where
  "isArgument (Argument _) = True"
| "isArgument (Literal _) = False"

definition NumArgs :: "Path \<Rightarrow> nat" where
  "NumArgs p = length (filter isArgument p)"

section \<open>Route\<close>

text \<open>
  A handler is any Go value: its dynamic type and, when it is a function, what calling it
  does. A handler may have effects, so a call takes the state of the program and
  returns the new one beside its outputs.
\<close>

datatype 's handlerValue =
  HandlerValue (htype: gotype) (hcall: "'s \<Rightarrow> govalue list \<Rightarrow> govalue list \<times> 's")

text \<open>
  The struct \<open>Route\<close>. \<open>Handler\<close> is an \<open>interface{}\<close> and may be nil; \<open>handler\<close> and
  \<open>handlerType\<close> are the zero \<open>reflect.Value\<close> and the nil \<open>reflect.Type\<close> until \<open>init\<close>
  sets them; \<open>initialize\<close> is the \<open>sync.Once\<close>, true once it has run.
\<close>

record 's Route =
  Path :: Path
  Method :: string
  Handler :: "'s handlerValue option"
  initialize :: bool
  handler :: "'s handlerValue option"
  handlerType :: "gotype option"
  inBody :: int
  outBody :: int
  outError :: int

text \<open>
  The loop of \<open>init\<close> over the outputs of the handler, from index \<open>i\<close> on: the types
  still to visit are the first argument.
\<close>

fun initOut :: "gotype list \<Rightarrow> int \<Rightarrow> 's Route \<Rightarrow> panic + 's Route" where
  "initOut [] i route = Inr route"
| "initOut (out # outs) i route =
     (if out = errorType then
        (if outError route \<ge> 0 then Inl TooManyErrorReturn
         else initOut outs (i + 1) (route\<lparr>outError := i\<rparr>))
      else
        (if outBody route \<ge> 0 then Inl TooManyNormalReturn
         else initOut outs (i + 1) (route\<lparr>outBody := i\<rparr>)))"

text \<open>
  \<open>Route.init\<close>. \<open>reflect.ValueOf(nil).Type()\<close> panics on the zero Value; every
  \<open>log.Panicf\<close> ends the function.
\<close>

definition init :: "'s Route \<Rightarrow> panic + 's Route" where
  "init route =
     (case Handler route of
        None \<Rightarrow> Inl ReflectZeroValue
      | Some h \<Rightarrow>
          let route = route\<lparr>handler := Some h, handlerType := Some (htype h)\<rparr> in
          if Kind (htype h) \<noteq> Func then Inl InvalidHandlerType
          else
            let pathArgs = int (NumArgs (Path route));
                handlerArgs = int (NumIn (htype h))
            in
              if pathArgs < handlerArgs - 1 then Inl NotEnoughPathArgs
              else if pathArgs > handlerArgs then Inl TooManyPathArgs
              else
                let route = (if pathArgs < handlerArgs then route\<lparr>inBody := handlerArgs\<rparr>
                             else route)
                in
                  if NumOut (htype h) > 2 then Inl TooManyReturn
                  else initOut (Out (htype h)) 0 (route\<lparr>outBody := - 1, outError := - 1\<rparr>))"

text \<open>\<open>Route.Init\<close>: \<open>init\<close> runs at the first call only.\<close>

definition Init :: "'s Route \<Rightarrow> panic + 's Route" where
  "Init route = (if initialize route then Inr route else init (route\<lparr>initialize := True\<rparr>))"

section \<open>The standard library\<close>

text \<open>
  \<open>strconv.ParseBool\<close>, \<open>ParseUint\<close> and \<open>ParseInt\<close> in base 10 are written out after the
  Go library, each returning its pair of a value and an error (\<open>None\<close> for nil).
\<close>

definition syntaxError :: "string \<Rightarrow> string \<Rightarrow> goerror" where
  "syntaxError fn str = NumError fn str ErrSyntax"

definition rangeError :: "string \<Rightarrow> string \<Rightarrow> goerror" where
  "rangeError fn str = NumError fn str ErrRange"

definition ParseBool :: "string \<Rightarrow> bool \<times> goerror option" where
  "ParseBool str =
     (if str \<in> {''1'', ''t'', ''T'', ''TRUE'', ''true'', ''True''} then (True, None)
      else if str \<in> {''0'', ''f'', ''F'', ''FALSE'', ''false'', ''False''} then (False, None)
      else (False, Some (syntaxError ''ParseBool'' str)))"

definition digitVal :: "char \<Rightarrow> nat option" where
  "digitVal c =
     (let n = (of_char c :: nat) in if 48 \<le> n \<and> n \<le> 57 then Some (n - 48) else None)"

text \<open>
  The digit loop of \<open>ParseUint\<close> on a \<open>uint64\<close> accumulator \<open>n\<close>, with
  \<open>cutoff = maxUint64/10 + 1\<close>. Below the cutoff \<open>n * 10\<close> does not wrap, and the test
  \<open>n1 < n\<close> of the library, which detects the wrap of \<open>n * 10 + d\<close>, is the test
  \<open>2 ^ 64 \<le> n * 10 + d\<close> on unbounded naturals.
\<close>

definition cutoff10 :: nat where
  "cutoff10 = (2 ^ 64 - 1) div 10 + 1"

fun uintLoop :: "string \<Rightarrow> nat \<Rightarrow> nat \<Rightarrow> nat \<times> numerr option" where
  "uintLoop [] maxVal n = (n, None)"
| "uintLoop (c # cs) maxVal n =
     (case digitVal c of
        None \<Rightarrow> (0, Some ErrSyntax)
      | Some d \<Rightarrow>
          if n \<ge> cutoff10 then (maxVal, Some ErrRange)
          else
            let n1 = n * 10 + d in
            if 2 ^ 64 \<le> n1 \<or> n1 > maxVal then (maxVal, Some ErrRange)
            else uintLoop cs maxVal n1)"

definition ParseUint :: "string \<Rightarrow> nat \<Rightarrow> nat \<times> goerror option" where
  "ParseUint s bitSize =
     (if s = [] then (0, Some (syntaxError ''ParseUint'' s))
      else
        case uintLoop s (2 ^ bitSize - 1) 0 of
          (n, None) \<Rightarrow> (n, None)
        | (n, Some e) \<Rightarrow> (n, Some (NumError ''ParseUint'' s e)))"

text \<open>
  \<open>ParseInt\<close> tests \<open>err != nil && err.(*NumError).Err != ErrRange\<close> and then sets the
  fields \<open>Func\<close> and \<open>Num\<close> of the error it returns.
\<close>

fun notErrRange :: "goerror option \<Rightarrow> bool" where
  "notErrRange (Some (NumError fn num e)) = (e \<noteq> ErrRange)"
| "notErrRange _ = False"

fun setFuncNum :: "string \<Rightarrow> string \<Rightarrow> goerror option \<Rightarrow> goerror option" where
  "setFuncNum fn num (Some (NumError fn' num' e)) = Some (NumError fn num e)"
| "setFuncNum fn num err = err"

definition ParseInt :: "string \<Rightarrow> nat \<Rightarrow> int \<times> goerror option" where
  "ParseInt s0 bitSize =
     (if s0 = [] then (0, Some (syntaxError ''ParseInt'' s0))
      else
        let neg = (hd s0 = CHR ''-'');
            s = (if hd s0 = CHR ''+'' \<or> hd s0 = CHR ''-'' then tl s0 else s0);
            (un, err) = ParseUint s bitSize
        in
          if notErrRange err then (0, setFuncNum ''ParseInt'' s0 err)
          else
            let cutoff = (2 :: nat) ^ (bitSize - 1) in
            if \<not> neg \<and> un \<ge> cutoff then (int cutoff - 1, Some (rangeError ''ParseInt'' s0))
            else if neg \<and> un > cutoff then (- int cutoff, Some (rangeError ''ParseInt'' s0))
            else (if neg then - int un else int un, None))"

text \<open>
  What stays a parameter: \<open>strconv.ParseFloat\<close> (the result as the 64 bits of the
  float), the decoding of a JSON document into a new value of a type, and
  \<open>json.Marshal\<close>.
\<close>

record stdlib =
  ParseFloat :: "string \<Rightarrow> nat \<Rightarrow> nat \<times> goerror option"
  Decode :: "bytes \<Rightarrow> gotype \<Rightarrow> goerror + govalue"
  Marshal :: "govalue \<Rightarrow> goerror + bytes"

text \<open>
  \<open>json.NewEncoder(w).Encode(v)\<close> writes the encoding of \<open>v\<close> followed by a newline,
  or nothing and returns the error.
\<close>

definition Encode :: "stdlib \<Rightarrow> govalue \<Rightarrow> goerror + bytes" where
  "Encode lib v = (case Marshal lib v of Inl err \<Rightarrow> Inl err | Inr b \<Rightarrow> Inr (b @ [CHR 0x0A]))"

section \<open>Binding and invocation\<close>

text \<open>
  \<open>Route.parseArg\<close> sets a new value of the type \<open>t\<close> from \<open>data\<close> and returns an error
  or nil: here the error, or the value as set.
\<close>

definition parseArg :: "stdlib \<Rightarrow> 's Route \<Rightarrow> string \<Rightarrow> gotype \<Rightarrow> goerror + govalue" where
  "parseArg lib route data t =
     (let k = Kind t in
      if k = String then Inr (VString data)
      else if k = Bool then
        (case ParseBool data of (b, None) \<Rightarrow> Inr (VBool b) | (b, Some err) \<Rightarrow> Inl err)
      else if k \<in> {IntKind, Int8, Int16, Int32, Int64} then
        (case ParseInt data (Bits k) of (i, None) \<Rightarrow> Inr (VInt k i) | (i, Some err) \<Rightarrow> Inl err)
      else if k \<in> {Uint, Uint8, Uint16, Uint32, Uint64} then
        (case ParseUint data (Bits k) of (u, None) \<Rightarrow> Inr (VUint k u) | (u, Some err) \<Rightarrow> Inl err)
      else if k \<in> {Float32, Float64} then
        (case ParseFloat lib data (Bits k) of
           (f, None) \<Rightarrow> Inr (VFloat k f) | (f, Some err) \<Rightarrow> Inl err)
      else
        Inl (Errorf ''unsupported argument type for route '%s %s': %s''
               [ArgString (Method route), ArgPath (Path route), ArgKind k]))"

text \<open>\<open>Route.isNil\<close>.\<close>

definition isNil :: "govalue \<Rightarrow> panic + bool" where
  "isNil obj =
     (let k = ValueKind obj in
      if k = String then (case Len obj of Inl p \<Rightarrow> Inl p | Inr n \<Rightarrow> Inr (n = 0))
      else if k \<in> {Chan, Interface, Map, Ptr, Slice} then IsNil obj
      else Inr False)"

text \<open>An index expression \<open>xs[i]\<close> with an \<open>int\<close> index.\<close>

definition index :: "'a list \<Rightarrow> int \<Rightarrow> panic + 'a" where
  "index xs i = (if 0 \<le> i \<and> i < int (length xs) then Inr (xs ! nat i) else Inl IndexOutOfRange)"

text \<open>
  The first loop of \<open>Route.invoke\<close>: its body at position \<open>i\<close>, which binds a path
  argument or decodes the body, and the loop from position \<open>i\<close> on, with the input
  types still to bind and the values \<open>inp\<close> bound so far.
\<close>

definition bindArg ::
  "stdlib \<Rightarrow> 's Route \<Rightarrow> string list \<Rightarrow> bytes \<Rightarrow> nat \<Rightarrow> gotype \<Rightarrow> goerror + govalue" where
  "bindArg lib route args body i t =
     (if i < length args then parseArg lib route (args ! i) t else Decode lib body t)"

fun bindArgs ::
  "stdlib \<Rightarrow> 's Route \<Rightarrow> string list \<Rightarrow> bytes \<Rightarrow> nat \<Rightarrow> gotype list \<Rightarrow> govalue list
     \<Rightarrow> goerror + govalue list" where
  "bindArgs lib route args body i [] inp = Inr inp"
| "bindArgs lib route args body i (t # ts) inp =
     (case bindArg lib route args body i t of
        Inl err \<Rightarrow> Inl err
      | Inr arg \<Rightarrow> bindArgs lib route args body (i + 1) ts (inp @ [arg]))"

text \<open>
  The error slot after the call: \<open>None\<close> when the route has none or it holds nil, the
  error otherwise.
\<close>

definition errorOutput :: "'s Route \<Rightarrow> govalue list \<Rightarrow> panic + goerror option" where
  "errorOutput route out =
     (if outError route \<ge> 0 then
        (case index out (outError route) of
           Inl p \<Rightarrow> Inl p
         | Inr v \<Rightarrow>
             (case IsNil v of
                Inl p \<Rightarrow> Inl p
              | Inr True \<Rightarrow> Inr None
              | Inr False \<Rightarrow> (case v of VError err \<Rightarrow> Inr (Some err) | _ \<Rightarrow> Inl TypeAssertion)))
      else Inr None)"

text \<open>The body slot after the call: the bytes of the response.\<close>

definition bodyOutput :: "stdlib \<Rightarrow> 's Route \<Rightarrow> govalue list \<Rightarrow> panic + bytes \<times> Error option" where
  "bodyOutput lib route out =
     (if outBody route \<ge> 0 then
        (case index out (outBody route) of
           Inl p \<Rightarrow> Inl p
         | Inr v \<Rightarrow>
             (case isNil v of
                Inl p \<Rightarrow> Inl p
              | Inr True \<Rightarrow> Inr ([], None)
              | Inr False \<Rightarrow>
                  (case Encode lib v of
                     Inl err \<Rightarrow> Inr ([], Some (Error MarshalError (Some err)))
                   | Inr b \<Rightarrow> Inr (b, None))))
      else Inr ([], None))"

text \<open>
  \<open>Route.invoke\<close>, from the state \<open>s\<close> of the program. \<open>handlerType.NumIn()\<close> panics on a
  route that \<open>init\<close> has not set, and on a type that is not a function.
\<close>

definition invoke ::
  "stdlib \<Rightarrow> 's Route \<Rightarrow> string list \<Rightarrow> bytes \<Rightarrow> 's \<Rightarrow> (panic + bytes \<times> Error option) \<times> 's" where
  "invoke lib route args body s =
     (case (handler route, handlerType route) of
        (Some h, Some ht) \<Rightarrow>
          if Kind ht \<noteq> Func then (Inl ReflectWrongKind, s)
          else
            (case bindArgs lib route args body 0 (In ht) [] of
               Inl err \<Rightarrow> (Inr ([], Some (Error UnmarshalError (Some err))), s)
             | Inr inp \<Rightarrow>
                 let (out, s') = hcall h s inp in
                 (case errorOutput route out of
                    Inl p \<Rightarrow> (Inl p, s')
                  | Inr (Some err) \<Rightarrow> (Inr ([], Some (Error HandlerError (Some err))), s')
                  | Inr None \<Rightarrow> (bodyOutput lib route out, s')))
      | _ \<Rightarrow> (Inl NilPointer, s))"

section \<open>Mux\<close>

text \<open>
  An \<open>http.Header\<close> maps a key to its values; \<open>Get\<close> is the first value of the key, or
  the empty string. The key the source asks for, \<open>Content-Type\<close>, is in canonical form.
\<close>

type_synonym Header = "string \<rightharpoonup> string list"

definition Get :: "Header \<Rightarrow> string \<Rightarrow> string" where
  "Get h key = (case h key of None \<Rightarrow> [] | Some [] \<Rightarrow> [] | Some (v # vs) \<Rightarrow> v)"

text \<open>
  The request, as far as \<open>ServeHTTP\<close> reads it: the method, \<open>URL.Path\<close>, the header, and
  what \<open>ioutil.ReadAll(httpReq.Body)\<close> returns, the bytes or an error.
\<close>

record Request =
  reqMethod :: string
  URLPath :: string
  reqHeader :: Header
  reqBody :: "goerror + bytes"

datatype httpHandler = DefaultServeMux | OtherHandler string

text \<open>
  The struct \<open>Mux\<close>. The router is declared outside the files at hand and stays a
  parameter: \<open>router mux method sub\<close> is \<open>mux.router.Route(method, sub)\<close>, a route or nil
  and the arguments. \<open>muxInitialize\<close> is the \<open>sync.Once\<close> of the mux.
\<close>

record 's Mux =
  Root :: string
  ErrorFunc :: "(ErrorType \<Rightarrow> goerror option \<Rightarrow> goerror option) option"
  DefaultHandler :: "httpHandler option"
  muxInitialize :: bool
  router :: "string \<Rightarrow> string \<Rightarrow> 's Route option \<times> string list"

text \<open>\<open>strings.Trim\<close> and \<open>strings.HasPrefix\<close>.\<close>

definition Trim :: "string \<Rightarrow> string \<Rightarrow> string" where
  "Trim str cutset =
     rev (dropWhile (\<lambda>c. c \<in> set cutset) (rev (dropWhile (\<lambda>c. c \<in> set cutset) str)))"

definition HasPrefix :: "string \<Rightarrow> string \<Rightarrow> bool" where
  "HasPrefix str pre = (length str \<ge> length pre \<and> take (length pre) str = pre)"

text \<open>\<open>Mux.init\<close> and \<open>Mux.Init\<close>.\<close>

definition Mux_init :: "'s Mux \<Rightarrow> 's Mux" where
  "Mux_init mux =
     (let mux = (if length (Root mux) = 0 then mux\<lparr>Root := ''/''\<rparr>
                 else mux\<lparr>Root := ''/'' @ Trim (Root mux) ''/''\<rparr>)
      in if DefaultHandler mux = None then mux\<lparr>DefaultHandler := Some DefaultServeMux\<rparr>
         else mux)"

definition Mux_Init :: "'s Mux \<Rightarrow> 's Mux" where
  "Mux_Init mux = (if muxInitialize mux then mux else Mux_init (mux\<lparr>muxInitialize := True\<rparr>))"

text \<open>\<open>Mux.route\<close>: the route, the arguments and the error.\<close>

definition unknownPath :: "string \<Rightarrow> goerror" where
  "unknownPath path = Errorf (''unknown path: '%s'' @ [CHR 0x27]) [ArgString path]"

definition Mux_route ::
  "'s Mux \<Rightarrow> string \<Rightarrow> string \<Rightarrow> 's Route option \<times> string list \<times> goerror option" where
  "Mux_route mux method path =
     (if HasPrefix path (Root mux) then
        (let sub = drop (length (Root mux)) path in
         case router mux method sub of
           (Some route, args) \<Rightarrow> (Some route, args, None)
         | (None, args) \<Rightarrow> (None, [], Some (unknownPath path)))
      else (None, [], Some (unknownPath path)))"

text \<open>
  What \<open>ServeHTTP\<close> leaves on the \<open>http.ResponseWriter\<close>: the request was handed to the
  default handler; \<open>http.Error(writer, err.Error(), code)\<close> wrote the message of \<open>err\<close>
  under the status \<open>code\<close>; \<open>writer.WriteHeader(code)\<close>; or \<open>writer.Write(resp)\<close> after
  the headers \<open>Content-Type: application/json\<close> and \<open>Content-Length\<close>, under the
  implicit status 200.
\<close>

datatype response =
    Delegated httpHandler
  | HttpError goerror int
  | WriteHeader int
  | Write bytes

fun status :: "response \<Rightarrow> int option" where
  "status (Delegated h) = None"
| "status (HttpError err code) = Some code"
| "status (WriteHeader code) = Some code"
| "status (Write resp) = Some 200"

definition StatusBadRequest :: int where "StatusBadRequest = 400"
definition StatusNoContent :: int where "StatusNoContent = 204"
definition StatusNotFound :: int where "StatusNotFound = 404"

text \<open>
  \<open>Mux.respondError\<close>. The type assertion \<open>err.(*CodedError)\<close> fails on a nil \<open>err\<close>, and
  \<open>err.Error()\<close> on a nil \<open>err\<close> panics before \<open>http.Error\<close> is called.
\<close>

definition respondError :: "'s Mux \<Rightarrow> ErrorType \<Rightarrow> int \<Rightarrow> goerror option \<Rightarrow> panic + response" where
  "respondError mux errType code err =
     (let err = (case ErrorFunc mux of None \<Rightarrow> err | Some f \<Rightarrow> f errType err);
          (code, err) = (case err of Some (CodedError c sub) \<Rightarrow> (c, sub) | _ \<Rightarrow> (code, err))
      in case err of None \<Rightarrow> Inl NilPointer | Some e \<Rightarrow> Inr (HttpError e code))"

text \<open>
  \<open>Mux.ServeHTTP\<close> in two steps. The first is the path of the request through the
  function up to the call that answers it: the default handler, a call of
  \<open>respondError\<close> with its arguments, or the body that \<open>invoke\<close> returned.
\<close>

datatype answer =
    UseDefaultHandler
  | RespondError ErrorType int "goerror option"
  | Respond bytes

definition unsupportedContentType :: "string \<Rightarrow> goerror" where
  "unsupportedContentType contentType =
     Errorf (''unsupported content type: got '%s' expected 'application/json'' @ [CHR 0x27])
       [ArgString contentType]"

definition serve ::
  "stdlib \<Rightarrow> 's Mux \<Rightarrow> Request \<Rightarrow> 's \<Rightarrow> (panic + answer) \<times> 's" where
  "serve lib mux httpReq s =
     (case Mux_route mux (reqMethod httpReq) (URLPath httpReq) of
        (route, args, Some err) \<Rightarrow> (Inr UseDefaultHandler, s)
      | (route, args, None) \<Rightarrow>
          let contentType = Get (reqHeader httpReq) ''Content-Type'' in
          if contentType \<noteq> ''application/json'' then
            (Inr (RespondError UnsupportedContentType StatusBadRequest
                    (Some (unsupportedContentType contentType))), s)
          else
            (case reqBody httpReq of
               Inl err \<Rightarrow> (Inr (RespondError ReadBodyError StatusBadRequest (Some err)), s)
             | Inr body \<Rightarrow>
                 (case route of
                    None \<Rightarrow> (Inl NilPointer, s)
                  | Some route \<Rightarrow>
                      (case invoke lib route args body s of
                         (Inl p, s') \<Rightarrow> (Inl p, s')
                       | (Inr (resp, Some restError), s') \<Rightarrow>
                           (Inr (RespondError (Type restError) StatusBadRequest (Sub restError)),
                            s')
                       | (Inr (resp, None), s') \<Rightarrow> (Inr (Respond resp), s')))))"

text \<open>The second step is the answer itself.\<close>

definition answer :: "'s Mux \<Rightarrow> answer \<Rightarrow> panic + response" where
  "answer mux a =
     (case a of
        UseDefaultHandler \<Rightarrow>
          (case DefaultHandler mux of None \<Rightarrow> Inl NilPointer | Some h \<Rightarrow> Inr (Delegated h))
      | RespondError errType code err \<Rightarrow> respondError mux errType code err
      | Respond resp \<Rightarrow>
          if length resp = 0 then Inr (WriteHeader StatusNoContent) else Inr (Write resp))"

definition ServeHTTP ::
  "stdlib \<Rightarrow> 's Mux \<Rightarrow> Request \<Rightarrow> 's \<Rightarrow> (panic + response) \<times> 's" where
  "ServeHTTP lib mux httpReq s =
     (let mux = Mux_Init mux in
      case serve lib mux httpReq s of
        (Inl p, s') \<Rightarrow> (Inl p, s')
      | (Inr a, s') \<Rightarrow> (answer mux a, s'))"

section \<open>The client's Response\<close>

text \<open>
  The struct \<open>Response\<close>, as far as \<open>GetBody\<close> reads it; its field \<open>Error\<close> is written
  \<open>respError\<close>.
\<close>

record Response =
  Code :: int
  respHeader :: Header
  Body :: bytes
  respError :: "Error option"

text \<open>
  \<open>json.Unmarshal(data, obj)\<close>, where \<open>obj\<close> is nil or a pointer to a value of a type:
  the error it returns, and the value it stored.
\<close>

definition Unmarshal :: "stdlib \<Rightarrow> bytes \<Rightarrow> gotype option \<Rightarrow> goerror option \<times> govalue option" where
  "Unmarshal lib data obj =
     (case obj of
        None \<Rightarrow> (Some (ErrorString ''json: Unmarshal(nil)''), None)
      | Some t \<Rightarrow> (case Decode lib data t of Inl err \<Rightarrow> (Some err, None) | Inr v \<Rightarrow> (None, Some v)))"

text \<open>The test of the fourth branch of \<open>GetBody\<close> on the status code.\<close>

definition unexpectedCode :: "int \<Rightarrow> bool" where
  "unexpectedCode code = (code < 200 \<and> code \<ge> 300)"

text \<open>
  \<open>Response.GetBody\<close>: the error returned and the value stored in \<open>obj\<close>, if any. The
  named result \<open>err\<close> is nil when the chain of tests starts, and the last test reads
  \<open>err\<close>, not \<open>jsonErr\<close>.
\<close>

definition GetBody ::
  "stdlib \<Rightarrow> Response \<Rightarrow> gotype option \<Rightarrow> Error option \<times> govalue option" where
  "GetBody lib resp obj =
     (let err = (None :: Error option) in
      if respError resp \<noteq> None then (respError resp, None)
      else if Code resp = StatusNotFound then
        (Some (Error UnknownRoute (Some (ErrorString (Body resp)))), None)
      else if Code resp \<ge> 400 then
        (Some (Error EndpointError (Some (ErrorString (Body resp)))), None)
      else if unexpectedCode (Code resp) then
        (Some (ErrorFmt UnexpectedStatusCode ''unexpected status code: %d'' [ArgInt (Code resp)]),
         None)
      else if Code resp = StatusNoContent then
        (if obj = None then (err, None)
         else (Some (ErrorFmt UnexpectedStatusCode ''unexpected status code: 204'' []), None))
      else
        let contentType = Get (respHeader resp) ''Content-Type'' in
        if contentType \<noteq> ''application/json'' then
          (Some (ErrorFmt UnsupportedContentType
                   (''unsupported content-type: '%s' != 'application/json'' @ [CHR 0x27])
                   [ArgString contentType]), None)
        else
          let (jsonErr, stored) = Unmarshal lib (Body resp) obj in
          if err \<noteq> None then (Some (Error UnmarshalError jsonErr), stored)
          else (err, stored))"

section \<open>Example routes, requests and responses\<close>

text \<open>
  \<open>NewRoute\<close>, from the parsed path (\<open>NewPath\<close> is declared outside the files at hand):
  the struct literal, then \<open>Init\<close>.
\<close>

definition newRoute :: "Path \<Rightarrow> string \<Rightarrow> 's handlerValue option \<Rightarrow> 's Route" where
  "newRoute path method h =
     \<lparr>Path = path, Method = method, Handler = h, initialize = False, handler = None,
      handlerType = None, inBody = 0, outBody = 0, outError = 0\<rparr>"

definition NewRoute :: "Path \<Rightarrow> string \<Rightarrow> 's handlerValue option \<Rightarrow> panic + 's Route" where
  "NewRoute path method h = Init (newRoute path method h)"

definition intType :: gotype where
  "intType = GoType IntKind ''int'' [] []"

definition stringType :: gotype where
  "stringType = GoType String ''string'' [] []"

definition itemType :: gotype where
  "itemType = GoType Struct ''Item'' [] []"

text \<open>
  A standard library for the examples: no float parses; the document \<open>{}\<close> decodes
  into an \<open>Item\<close> and nothing else decodes; an \<open>Item\<close> and the integer zero have
  encodings, \<open>{}\<close> and \<open>0\<close>, and nothing else has.
\<close>

definition exampleLib :: stdlib where
  "exampleLib =
     \<lparr>ParseFloat = (\<lambda>str bitSize. (0, Some (syntaxError ''ParseFloat'' str))),
      Decode = (\<lambda>data t. if data = ''{}'' \<and> t = itemType then Inr (VOther Struct ''Item{}'')
                            else Inl (ErrorString ''invalid character'')),
      Marshal = (\<lambda>v. if v = VOther Struct ''Item{}'' then Inr ''{}''
                       else if v = VInt IntKind 0 then Inr ''0''
                       else Inl (ErrorString ''json: unsupported type''))\<rparr>"

text \<open>The path \<open>/items/:id\<close>.\<close>

definition itemsPath :: Path where
  "itemsPath = [Literal ''items'', Argument ''id'']"

text \<open>
  Handlers over a program state that counts the calls. \<open>func() (int, int, int)\<close>;
  \<open>func(id int) (Item, error)\<close> returning an item and nil; the same returning an item
  and an error; the same returning an item and a \<open>*CodedError\<close>;
  \<open>func(id int, name string, item Item) error\<close>; and \<open>func(item Item) error\<close>, whose
  only input is not one a path segment can give.
\<close>

definition threeOutputs :: "nat handlerValue" where
  "threeOutputs =
     HandlerValue (GoType Func ''func() (int, int, int)'' [] [intType, intType, intType])
       (\<lambda>s inp. ([VInt IntKind 0, VInt IntKind 0, VInt IntKind 0], s + 1))"

definition getItem :: "nat handlerValue" where
  "getItem =
     HandlerValue (GoType Func ''func(int) (Item, error)'' [intType] [itemType, errorType])
       (\<lambda>s inp. ([VOther Struct ''Item{}'', VNil Interface], s + 1))"

definition getItemFails :: "nat handlerValue" where
  "getItemFails =
     HandlerValue (GoType Func ''func(int) (Item, error)'' [intType] [itemType, errorType])
       (\<lambda>s inp. ([VOther Struct ''Item{}'', VError (ErrorString ''no such item'')], s + 1))"

definition getItemCoded :: "nat handlerValue" where
  "getItemCoded =
     HandlerValue (GoType Func ''func(int) (Item, error)'' [intType] [itemType, errorType])
       (\<lambda>s inp. ([VOther Struct ''Item{}'',
                   VError (CodedError 404 (Some (ErrorString ''no such item'')))], s + 1))"

definition threeInputs :: "nat handlerValue" where
  "threeInputs =
     HandlerValue
       (GoType Func ''func(int, string, Item) error'' [intType, stringType, itemType] [errorType])
       (\<lambda>s inp. ([VNil Interface], s + 1))"

definition takesItem :: "nat handlerValue" where
  "takesItem =
     HandlerValue (GoType Func ''func(Item) error'' [itemType] [errorType])
       (\<lambda>s inp. ([VNil Interface], s + 1))"

text \<open>
  A mux over one route, with a router that knows this route only and takes the rest of
  the path as its argument; a GET request with no body; a header with no field, and
  one with the content type of JSON.
\<close>

definition oneRouter :: "'s Route \<Rightarrow> string \<Rightarrow> string \<Rightarrow> 's Route option \<times> string list" where
  "oneRouter route method sub =
     (if method = Method route \<and> take 6 sub = ''items/'' \<and> CHR ''/'' \<notin> set (drop 6 sub)
      then (Some route, [drop 6 sub]) else (None, []))"

definition oneMux :: "'s Route \<Rightarrow> 's Mux" where
  "oneMux route =
     \<lparr>Root = [], ErrorFunc = None, DefaultHandler = None, muxInitialize = False,
      router = oneRouter route\<rparr>"

definition getRequest :: "string \<Rightarrow> Header \<Rightarrow> Request" where
  "getRequest path header =
     \<lparr>reqMethod = ''GET'', URLPath = path, reqHeader = header, reqBody = Inr []\<rparr>"

definition emptyHeader :: Header where
  "emptyHeader = Map.empty"

definition jsonHeader :: Header where
  "jsonHeader = [''Content-Type'' \<mapsto> [''application/json'']]"

text \<open>Responses of an endpoint: 204 with no body, and 200 with a body that is not JSON.\<close>

definition noContentResponse :: Response where
  "noContentResponse = \<lparr>Code = 204, respHeader = Map.empty, Body = [], respError = None\<rparr>"

definition badJSONResponse :: Response where
  "badJSONResponse =
     \<lparr>Code = 200, respHeader = jsonHeader, Body = ''not json'', respError = None\<rparr>"

text \<open>Routes as \<open>init\<close> leaves them: for a handler with a body and an error output, and for \<open>takesItem\<close>.\<close>

definition itemsRoute :: "nat handlerValue \<Rightarrow> nat Route" where
  "itemsRoute h =
     \<lparr>Path = itemsPath, Method = ''GET'', Handler = Some h, initialize = True,
      handler = Some h, handlerType = Some (htype h), inBody = 0, outBody = 0, outError = 1\<rparr>"

definition takesItemRoute :: "nat Route" where
  "takesItemRoute =
     \<lparr>Path = itemsPath, Method = ''GET'', Handler = Some takesItem, initialize = True,
      handler = Some takesItem, handlerType = Some (htype takesItem), inBody = 0,
      outBody = - 1, outError = 0\<rparr>"

text \<open>
  More handlers of \<open>/items/:id\<close>: \<open>func(id int) (int, error)\<close> returning zero,
  \<open>func(id int) (string, error)\<close> returning the empty string,
  \<open>func(id int) (chan int, error)\<close> returning a channel, which has no JSON encoding, and
  \<open>func(id int) error\<close>, which has no body output; all return a nil error.
\<close>

definition countItems :: "nat handlerValue" where
  "countItems =
     HandlerValue (GoType Func ''func(int) (int, error)'' [intType] [intType, errorType])
       (\<lambda>s inp. ([VInt IntKind 0, VNil Interface], s + 1))"

definition getName :: "nat handlerValue" where
  "getName =
     HandlerValue (GoType Func ''func(int) (string, error)'' [intType] [stringType, errorType])
       (\<lambda>s inp. ([VString [], VNil Interface], s + 1))"

definition getChannel :: "nat handlerValue" where
  "getChannel =
     HandlerValue
       (GoType Func ''func(int) (chan int, error)'' [intType]
          [GoType Chan ''chan int'' [] [], errorType])
       (\<lambda>s inp. ([VOther Chan ''chan int'', VNil Interface], s + 1))"

definition deleteItem :: "nat handlerValue" where
  "deleteItem =
     HandlerValue (GoType Func ''func(int) error'' [intType] [errorType])
       (\<lambda>s inp. ([VNil Interface], s + 1))"

definition deleteItemRoute :: "nat Route" where
  "deleteItemRoute =
     \<lparr>Path = itemsPath, Method = ''DELETE'', Handler = Some deleteItem, initialize = True,
      handler = Some deleteItem, handlerType = Some (htype deleteItem), inBody = 0,
      outBody = - 1, outError = 0\<rparr>"

text \<open>
  A handler of \<open>/flags/:on/:small/:byte/:name\<close>,
  \<open>func(on bool, small int8, byte uint8, name string) error\<close>, and its route as \<open>init\<close>
  leaves it.
\<close>

definition boolType :: gotype where
  "boolType = GoType Bool ''bool'' [] []"

definition int8Type :: gotype where
  "int8Type = GoType Int8 ''int8'' [] []"

definition uint8Type :: gotype where
  "uint8Type = GoType Uint8 ''uint8'' [] []"

definition flagsPath :: Path where
  "flagsPath =
     [Literal ''flags'', Argument ''on'', Argument ''small'', Argument ''byte'', Argument ''name'']"

definition setFlags :: "nat handlerValue" where
  "setFlags =
     HandlerValue
       (GoType Func ''func(bool, int8, uint8, string) error''
          [boolType, int8Type, uint8Type, stringType]
          [errorType])
       (\<lambda>s inp. ([VNil Interface], s + 1))"

definition flagsRoute :: "nat Route" where
  "flagsRoute =
     \<lparr>Path = flagsPath, Method = ''PUT'', Handler = Some setFlags, initialize = True,
      handler = Some setFlags, handlerType = Some (htype setFlags), inBody = 0,
      outBody = - 1, outError = 0\<rparr>"

section \<open>The words of the specification\<close>

text \<open>
  The kinds a value of each shape can have: a \<open>reflect.Value\<close> is of its type.
\<close>

fun validValue :: "govalue \<Rightarrow> bool" where
  "validValue (VInt k i) = (k \<in> {IntKind, Int8, Int16, Int32, Int64})"
| "validValue (VUint k u) = (k \<in> {Uint, Uint8, Uint16, Uint32, Uint64, Uintptr})"
| "validValue (VFloat k f) = (k \<in> {Float32, Float64})"
| "validValue (VNil k) = nillable k"
| "validValue (VOther k d) =
     (k \<in> {Complex64, Complex128, Array, Chan, Func, Interface, Map, Ptr, Slice, Struct,
            UnsafePointer})"
| "validValue v = True"

text \<open>
  The semantic empty value, in the words of the specification: "empty string, nil
  pointer/slice/map/interface/channel - all other types are never considered empty".
\<close>

fun emptyValue :: "govalue \<Rightarrow> bool" where
  "emptyValue (VString s) = (s = [])"
| "emptyValue (VNil k) = (k \<in> {Ptr, Slice, Map, Interface, Chan})"
| "emptyValue v = False"

text \<open>
  The kinds of "text, boolean, signed integer, unsigned integer, or floating point".
\<close>

definition signedKinds :: "kind set" where
  "signedKinds = {IntKind, Int8, Int16, Int32, Int64}"

definition unsignedKinds :: "kind set" where
  "unsignedKinds = {Uint, Uint8, Uint16, Uint32, Uint64}"

definition floatKinds :: "kind set" where
  "floatKinds = {Float32, Float64}"

definition pathKinds :: "kind set" where
  "pathKinds = {String, Bool} \<union> signedKinds \<union> unsignedKinds \<union> floatKinds"


text \<open>
  Decimal notation: a numeral is a string of one or more of the digits \<open>0\<close> to \<open>9\<close>,
  and denotes a natural number; a signed numeral is a numeral after an optional sign
  \<open>+\<close> or \<open>-\<close>, and denotes an integer.
\<close>

definition isDigit :: "char \<Rightarrow> bool" where
  "isDigit c = (48 \<le> (of_char c :: nat) \<and> (of_char c :: nat) \<le> 57)"

definition digits :: "string \<Rightarrow> bool" where
  "digits str = (str \<noteq> [] \<and> list_all isDigit str)"

definition decimal :: "string \<Rightarrow> nat" where
  "decimal str = foldl (\<lambda>n c. n * 10 + ((of_char c :: nat) - 48)) 0 str"

definition negative :: "string \<Rightarrow> bool" where
  "negative str = (str \<noteq> [] \<and> hd str = CHR ''-'')"

definition unsignedPart :: "string \<Rightarrow> string" where
  "unsignedPart str =
     (if str \<noteq> [] \<and> (hd str = CHR ''+'' \<or> hd str = CHR ''-'') then tl str else str)"

definition signedValue :: "string \<Rightarrow> int" where
  "signedValue str =
     (if negative str then - int (decimal (unsignedPart str))
      else int (decimal (unsignedPart str)))"

section \<open>Evaluation of the examples\<close>

lemmas example_defs =
  newRoute_def NewRoute_def intType_def stringType_def itemType_def errorType_def
  itemsPath_def threeOutputs_def getItem_def getItemFails_def getItemCoded_def
  threeInputs_def takesItem_def countItems_def getName_def getChannel_def deleteItem_def
  NumIn_def NumOut_def NumArgs_def

lemmas parse_defs =
  ParseInt_def ParseUint_def ParseBool_def digitVal_def cutoff10_def syntaxError_def
  rangeError_def

lemma init_getItem:
  "init (newRoute itemsPath ''GET'' (Some getItem)) =
     Inr ((newRoute itemsPath ''GET'' (Some getItem))
            \<lparr>handler := Some getItem, handlerType := Some (htype getItem),
             outBody := 0, outError := 1\<rparr>)"
  by (simp add: init_def example_defs)

section \<open>Route construction\<close>

lemma initOut_two:
  fixes r :: "'s Route"
  assumes "length outs \<le> 2" "outBody r = - 1" "outError r = - 1"
  shows "(\<exists>r'. initOut outs 0 r = Inr r') \<longleftrightarrow>
         (length (filter (\<lambda>t. t = errorType) outs) \<le> 1 \<and>
          length (filter (\<lambda>t. t \<noteq> errorType) outs) \<le> 1)"
proof (cases outs)
  case Nil
  then show ?thesis by simp
next
  case (Cons a as)
  note outer = Cons
  show ?thesis
  proof (cases as)
    case Nil
    with outer assms show ?thesis by simp
  next
    case (Cons b bs)
    with outer assms have "bs = []" by simp
    with outer Cons assms show ?thesis by simp
  qed
qed

text \<open>When \<open>init\<close> returns, by the shape of the handler.\<close>

lemma init_returns_iff:
  fixes route :: "'s Route"
  shows "(\<exists>route'. init route = Inr route') \<longleftrightarrow>
           (\<exists>h. Handler route = Some h \<and> Kind (htype h) = Func \<and>
                (NumIn (htype h) = NumArgs (Path route) \<or>
                 NumIn (htype h) = NumArgs (Path route) + 1) \<and>
                NumOut (htype h) \<le> 2 \<and>
                length (filter (\<lambda>t. t = errorType) (Out (htype h))) \<le> 1 \<and>
                length (filter (\<lambda>t. t \<noteq> errorType) (Out (htype h))) \<le> 1)"
proof (cases "Handler route")
  case None
  then show ?thesis by (simp add: init_def)
next
  case (Some h)
  show ?thesis
  proof (cases "Kind (htype h) = Func")
    case False
    with Some show ?thesis by (simp add: init_def)
  next
    case True
    consider (few) "NumIn (htype h) < NumArgs (Path route)"
      | (many) "NumIn (htype h) > NumArgs (Path route) + 1"
      | (ok) "NumIn (htype h) = NumArgs (Path route) \<or>
              NumIn (htype h) = NumArgs (Path route) + 1"
      by linarith
    then show ?thesis
    proof cases
      case few
      with Some True show ?thesis by (simp add: init_def Let_def)
    next
      case many
      with Some True show ?thesis by (auto simp add: init_def Let_def)
    next
      case ok
      show ?thesis
      proof (cases "NumOut (htype h) > 2")
        case True
        with Some \<open>Kind (htype h) = Func\<close> ok show ?thesis
          by (auto simp add: init_def Let_def)
      next
        case False
        then have len: "length (Out (htype h)) \<le> 2" by (simp add: NumOut_def)
        from Some \<open>Kind (htype h) = Func\<close> ok False len show ?thesis
          by (auto simp add: init_def Let_def initOut_two)
      qed
    qed
  qed
qed

text \<open>
  C1, as stated, fails: \<open>func() (int, int, int)\<close> registered on a path with no argument
  has the input arity of the path, and \<open>init\<close> panics on its three outputs.
\<close>

theorem init_arity_counterexample:
  "Kind (htype threeOutputs) = Func \<and>
   NumIn (htype threeOutputs) = NumArgs (Path (newRoute [] ''GET'' (Some threeOutputs))) \<and>
   init (newRoute [] ''GET'' (Some threeOutputs)) = Inl TooManyReturn"
  by (simp add: init_def example_defs)

text \<open>
  C1, amended: \<open>init\<close> returns if and only if the handler is a function whose input arity
  is the argument count \<open>N\<close> of the path or \<open>N + 1\<close>, and which has at most two outputs,
  at most one of them of type \<open>error\<close> and at most one of another type. For a function
  of input arity above \<open>N + 1\<close> it panics with "not enough path arguments", and for one
  of input arity below \<open>N\<close> with "too many path arguments".
\<close>

theorem init_succeeds_iff:
  fixes route :: "'s Route"
  shows "((\<exists>route'. init route = Inr route') \<longleftrightarrow>
           (\<exists>h. Handler route = Some h \<and> Kind (htype h) = Func \<and>
                (NumIn (htype h) = NumArgs (Path route) \<or>
                 NumIn (htype h) = NumArgs (Path route) + 1) \<and>
                NumOut (htype h) \<le> 2 \<and>
                length (filter (\<lambda>t. t = errorType) (Out (htype h))) \<le> 1 \<and>
                length (filter (\<lambda>t. t \<noteq> errorType) (Out (htype h))) \<le> 1)) \<and>
         (\<forall>h. Handler route = Some h \<and> Kind (htype h) = Func \<longrightarrow>
              (NumIn (htype h) > NumArgs (Path route) + 1 \<longrightarrow>
                 init route = Inl NotEnoughPathArgs) \<and>
              (NumIn (htype h) < NumArgs (Path route) \<longrightarrow>
                 init route = Inl TooManyPathArgs))"
proof -
  have arity:
    "(NumIn (htype h) > NumArgs (Path route) + 1 \<longrightarrow> init route = Inl NotEnoughPathArgs) \<and>
     (NumIn (htype h) < NumArgs (Path route) \<longrightarrow> init route = Inl TooManyPathArgs)"
    if "Handler route = Some h \<and> Kind (htype h) = Func" for h
  proof (intro conjI impI)
    assume "NumIn (htype h) > NumArgs (Path route) + 1"
    then have "int (NumArgs (Path route)) < int (NumIn (htype h)) - 1" by simp
    with that show "init route = Inl NotEnoughPathArgs" by (simp add: init_def Let_def)
  next
    assume "NumIn (htype h) < NumArgs (Path route)"
    then have "\<not> int (NumArgs (Path route)) < int (NumIn (htype h)) - 1"
      and "int (NumArgs (Path route)) > int (NumIn (htype h))" by simp_all
    with that show "init route = Inl TooManyPathArgs" by (simp add: init_def Let_def)
  qed
  with init_returns_iff [of route] show ?thesis by blast
qed


theorem init_succeeds_iff_witness:
  "(\<exists>route'. init (newRoute itemsPath ''GET'' (Some getItem)) = Inr route') \<and>
   init (newRoute itemsPath ''PUT'' (Some threeInputs)) = Inl NotEnoughPathArgs \<and>
   init (newRoute itemsPath ''GET'' (Some threeOutputs)) = Inl TooManyPathArgs"
  using init_succeeds_iff [of "newRoute itemsPath ''GET'' (Some getItem)"]
    init_succeeds_iff [of "newRoute itemsPath ''PUT'' (Some threeInputs)"]
    init_succeeds_iff [of "newRoute itemsPath ''GET'' (Some threeOutputs)"]
  by (simp add: example_defs)

section \<open>The client's GetBody\<close>

text \<open>
  C8: the test \<open>resp.Code < 200 && resp.Code >= 300\<close> is false for every status code,
  so \<open>GetBody\<close> never takes that branch: on a response without a transport error, the
  only error of kind \<open>UnexpectedStatusCode\<close> it returns is the one of the status 204
  with a non-nil object.
\<close>

theorem GetBody_range_check_unreachable:
  assumes "respError resp = None"
  shows "\<not> unexpectedCode code \<and>
         (\<forall>cause. fst (GetBody lib resp obj) = Some (Error UnexpectedStatusCode cause) \<longrightarrow>
            Code resp = StatusNoContent \<and> obj \<noteq> None \<and>
            cause = Some (Errorf ''unexpected status code: 204'' []))"
  using assms
  by (auto simp: unexpectedCode_def GetBody_def ErrorFmt_def Let_def
           split: if_splits prod.splits)

theorem GetBody_range_check_unreachable_witness:
  "respError noContentResponse = None \<and>
   fst (GetBody exampleLib noContentResponse (Some itemType)) =
     Some (Error UnexpectedStatusCode (Some (Errorf ''unexpected status code: 204'' []))) \<and>
   Code noContentResponse = StatusNoContent \<and>
   \<not> unexpectedCode 204"
  using GetBody_range_check_unreachable
          [of noContentResponse 204 exampleLib "Some itemType"]
  by (simp add: noContentResponse_def GetBody_def ErrorFmt_def unexpectedCode_def
        StatusNoContent_def StatusNotFound_def)

text \<open>
  Whatever \<open>json.Unmarshal\<close> returns, a response that passes the tests before it gives
  the nil error: the last test reads \<open>err\<close>, which is still nil.
\<close>

lemma GetBody_ignores_jsonErr:
  assumes "respError resp = None" "Code resp < 400" "Code resp \<noteq> StatusNoContent"
    and "Get (respHeader resp) ''Content-Type'' = ''application/json''"
  shows "fst (GetBody lib resp obj) = None"
  using assms
  by (simp add: GetBody_def unexpectedCode_def StatusNotFound_def Let_def split: prod.splits)

text \<open>
  C9 fails on the code: a response with status 200, content type
  \<open>application/json\<close> and the body \<open>not json\<close>, which does not decode, gives the nil
  error and not one of kind \<open>UnmarshalError\<close>.
\<close>

theorem GetBody_decode_failure_returns_nil:
  "Unmarshal exampleLib (Body badJSONResponse) (Some itemType) =
     (Some (ErrorString ''invalid character''), None) \<and>
   GetBody exampleLib badJSONResponse (Some itemType) = (None, None)"
  by (simp add: GetBody_def Unmarshal_def badJSONResponse_def exampleLib_def itemType_def
        jsonHeader_def Get_def unexpectedCode_def StatusNotFound_def StatusNoContent_def)

section \<open>Binding the arguments\<close>

lemma NewRoute_getItem: "NewRoute itemsPath ''GET'' (Some getItem) = Inr (itemsRoute getItem)"
  by (simp add: Init_def init_def itemsRoute_def example_defs)

lemma NewRoute_itemsRoute:
  assumes "Kind (htype h) = Func" and "In (htype h) = [a]"
    and "Out (htype h) = [b, errorType]" and "b \<noteq> errorType"
  shows "NewRoute itemsPath ''GET'' (Some h) = Inr (itemsRoute h)"
  using assms
  by (simp add: Init_def init_def itemsRoute_def newRoute_def NewRoute_def itemsPath_def
        NumIn_def NumOut_def NumArgs_def)

lemma NewRoute_deleteItem:
  "NewRoute itemsPath ''DELETE'' (Some deleteItem) = Inr deleteItemRoute"
  by (simp add: Init_def init_def deleteItemRoute_def example_defs)

lemma NewRoute_takesItem: "NewRoute itemsPath ''GET'' (Some takesItem) = Inr takesItemRoute"
  by (simp add: Init_def init_def takesItemRoute_def example_defs)

lemma ParseInt_42: "k \<in> signedKinds \<Longrightarrow> ParseInt ''42'' (Bits k) = (42, None)"
  by (auto simp add: signedKinds_def parse_defs)

lemma ParseInt_abc: "ParseInt ''abc'' bitSize = (0, Some (NumError ''ParseInt'' ''abc'' ErrSyntax))"
  by (simp add: parse_defs)

lemma parseArg_signed:
  "Kind t \<in> signedKinds \<Longrightarrow>
   parseArg lib route data t =
     (case ParseInt data (Bits (Kind t)) of
        (i, None) \<Rightarrow> Inr (VInt (Kind t) i) | (i, Some err) \<Rightarrow> Inl err)"
  by (auto simp add: parseArg_def signedKinds_def split: prod.splits option.splits)

lemma parseArg_unsigned:
  "Kind t \<in> unsignedKinds \<Longrightarrow>
   parseArg lib route data t =
     (case ParseUint data (Bits (Kind t)) of
        (u, None) \<Rightarrow> Inr (VUint (Kind t) u) | (u, Some err) \<Rightarrow> Inl err)"
  by (auto simp add: parseArg_def unsignedKinds_def split: prod.splits option.splits)

lemma parseArg_float:
  "Kind t \<in> floatKinds \<Longrightarrow>
   parseArg lib route data t =
     (case ParseFloat lib data (Bits (Kind t)) of
        (f, None) \<Rightarrow> Inr (VFloat (Kind t) f) | (f, Some err) \<Rightarrow> Inl err)"
  by (auto simp add: parseArg_def floatKinds_def split: prod.splits option.splits)

lemma parseArg_unsupported:
  "Kind t \<notin> pathKinds \<Longrightarrow>
   parseArg lib route data t =
     Inl (Errorf ''unsupported argument type for route '%s %s': %s''
            [ArgString (Method route), ArgPath (Path route), ArgKind (Kind t)])"
  by (simp add: parseArg_def pathKinds_def signedKinds_def unsignedKinds_def floatKinds_def)

text \<open>When the loop returns values, each is the one bound at its position.\<close>

lemma bindArgs_Inr:
  "bindArgs lib route args body i ts inp = Inr res \<Longrightarrow>
   length res = length inp + length ts \<and>
   (\<forall>j < length inp. res ! j = inp ! j) \<and>
   (\<forall>j < length ts. bindArg lib route args body (i + j) (ts ! j) = Inr (res ! (length inp + j)))"
proof (induction ts arbitrary: i inp)
  case Nil
  then show ?case by simp
next
  case (Cons t ts)
  from Cons.prems obtain arg where arg: "bindArg lib route args body i t = Inr arg"
    and rest: "bindArgs lib route args body (i + 1) ts (inp @ [arg]) = Inr res"
    by (auto split: sum.splits)
  from Cons.IH [OF rest]
  have len: "length res = length (inp @ [arg]) + length ts"
    and old: "\<forall>j < length (inp @ [arg]). res ! j = (inp @ [arg]) ! j"
    and new: "\<forall>j < length ts.
                bindArg lib route args body (i + 1 + j) (ts ! j) =
                  Inr (res ! (length (inp @ [arg]) + j))"
    by blast+
  have "\<forall>j < length inp. res ! j = inp ! j"
    using old by (auto simp add: nth_append)
  moreover have here: "res ! length inp = arg"
    using old by (auto simp add: nth_append)
  moreover have "\<forall>j < length (t # ts).
      bindArg lib route args body (i + j) ((t # ts) ! j) = Inr (res ! (length inp + j))"
  proof (intro allI impI)
    fix j assume j: "j < length (t # ts)"
    show "bindArg lib route args body (i + j) ((t # ts) ! j) = Inr (res ! (length inp + j))"
    proof (cases j)
      case 0
      with arg here show ?thesis by simp
    next
      case (Suc j')
      with j have "j' < length ts" by simp
      with new have "bindArg lib route args body (i + 1 + j') (ts ! j') =
                       Inr (res ! (length (inp @ [arg]) + j'))" by blast
      with Suc show ?thesis by simp
    qed
  qed
  ultimately show ?case using len by simp
qed

text \<open>The loop stops at the first position that fails, with the error of that position.\<close>

lemma bindArgs_Inl_first:
  "j < length ts \<Longrightarrow> bindArg lib route args body (i + j) (ts ! j) = Inl e \<Longrightarrow>
   (\<forall>k < j. \<exists>v. bindArg lib route args body (i + k) (ts ! k) = Inr v) \<Longrightarrow>
   bindArgs lib route args body i ts inp = Inl e"
proof (induction ts arbitrary: i j inp)
  case Nil
  then show ?case by simp
next
  case (Cons t ts)
  show ?case
  proof (cases j)
    case 0
    with Cons.prems show ?thesis by simp
  next
    case (Suc j')
    from Cons.prems(3) Suc obtain v where v: "bindArg lib route args body i t = Inr v"
      by force
    have "bindArgs lib route args body (i + 1) ts (inp @ [v]) = Inl e"
    proof (rule Cons.IH [of j'])
      show "j' < length ts" using Cons.prems(1) Suc by simp
      show "bindArg lib route args body (i + 1 + j') (ts ! j') = Inl e"
        using Cons.prems(2) Suc by simp
      show "\<forall>k < j'. \<exists>v. bindArg lib route args body (i + 1 + k) (ts ! k) = Inr v"
      proof (intro allI impI)
        fix k assume "k < j'"
        then have "Suc k < j" using Suc by simp
        with Cons.prems(3) have "\<exists>v. bindArg lib route args body (i + Suc k) ((t # ts) ! Suc k) = Inr v"
          by blast
        then show "\<exists>v. bindArg lib route args body (i + 1 + k) (ts ! k) = Inr v" by simp
      qed
    qed
    with v show ?thesis by simp
  qed
qed

text \<open>A position that fails makes the loop fail, at that position or before.\<close>

lemma bindArgs_Inl_some:
  "j < length ts \<Longrightarrow> bindArg lib route args body (i + j) (ts ! j) = Inl e \<Longrightarrow>
   \<exists>e'. bindArgs lib route args body i ts inp = Inl e'"
proof (induction ts arbitrary: i j inp)
  case Nil
  then show ?case by simp
next
  case (Cons t ts)
  show ?case
  proof (cases j)
    case 0
    with Cons.prems show ?thesis by simp
  next
    case (Suc j')
    show ?thesis
    proof (cases "bindArg lib route args body i t")
      case (Inl e0)
      then show ?thesis by simp
    next
      case (Inr v)
      have "\<exists>e'. bindArgs lib route args body (i + 1) ts (inp @ [v]) = Inl e'"
        using Cons.IH [of j' "i + 1" "inp @ [v]"] Cons.prems Suc by simp
      with Inr show ?thesis by simp
    qed
  qed
qed

text \<open>What \<open>invoke\<close> returns when binding fails, and what it does when binding succeeds.\<close>

lemma invoke_bind_error:
  assumes "handler route = Some h" "handlerType route = Some ht" "Kind ht = Func"
    and "bindArgs lib route args body 0 (In ht) [] = Inl err"
  shows "invoke lib route args body s = (Inr ([], Some (Error UnmarshalError (Some err))), s)"
  using assms by (simp add: invoke_def)

lemma invoke_call:
  assumes "handler route = Some h" "handlerType route = Some ht" "Kind ht = Func"
    and "bindArgs lib route args body 0 (In ht) [] = Inr inp"
    and "hcall h s inp = (out, s')"
  shows "invoke lib route args body s =
           (case errorOutput route out of
              Inl p \<Rightarrow> (Inl p, s')
            | Inr (Some err) \<Rightarrow> (Inr ([], Some (Error HandlerError (Some err))), s')
            | Inr None \<Rightarrow> (bodyOutput lib route out, s'))"
  using assms by (simp add: invoke_def)

lemma isNil_emptyValue: "validValue v \<Longrightarrow> isNil v = Inr (emptyValue v)"
  by (cases v) (auto simp add: isNil_def nillable_def)

section \<open>Decimal numerals\<close>

lemma NewRoute_setFlags: "NewRoute flagsPath ''PUT'' (Some setFlags) = Inr flagsRoute"
  by (simp add: Init_def init_def flagsRoute_def flagsPath_def setFlags_def boolType_def
        int8Type_def uint8Type_def example_defs)

lemma digitVal_digit: "isDigit c \<Longrightarrow> digitVal c = Some ((of_char c :: nat) - 48)"
  by (simp add: digitVal_def isDigit_def Let_def)

lemma digitVal_other: "\<not> isDigit c \<Longrightarrow> digitVal c = None"
  by (auto simp add: digitVal_def isDigit_def Let_def)

lemma cutoff10_value: "cutoff10 = 1844674407370955162"
  by (simp add: cutoff10_def)

lemma foldl_decimal_ge:
  "n \<le> foldl (\<lambda>n c. n * 10 + ((of_char c :: nat) - 48)) n cs"
proof (induction cs arbitrary: n)
  case Nil
  show ?case by simp
next
  case (Cons c cs)
  have "n \<le> n * 10 + ((of_char c :: nat) - 48)" by simp
  also have "\<dots> \<le> foldl (\<lambda>n c. n * 10 + ((of_char c :: nat) - 48))
                      (n * 10 + ((of_char c :: nat) - 48)) cs"
    by (rule Cons.IH)
  finally show ?case by simp
qed

text \<open>
  On a string of digits the loop of \<open>ParseUint\<close> computes the number the digits
  denote, from the accumulator on, or stops with the range error as soon as the
  number passes the maximum.
\<close>

lemma uintLoop_digits:
  assumes "list_all isDigit cs" and "maxVal < 2 ^ 64" and "n \<le> maxVal"
  shows "uintLoop cs maxVal n =
           (if foldl (\<lambda>n c. n * 10 + ((of_char c :: nat) - 48)) n cs \<le> maxVal
            then (foldl (\<lambda>n c. n * 10 + ((of_char c :: nat) - 48)) n cs, None)
            else (maxVal, Some ErrRange))"
  using assms
proof (induction cs arbitrary: n)
  case Nil
  then show ?case by simp
next
  case (Cons c cs)
  let ?d = "(of_char c :: nat) - 48"
  let ?v = "foldl (\<lambda>n c. n * 10 + ((of_char c :: nat) - 48)) (n * 10 + ?d) cs"
  from Cons.prems have dig: "digitVal c = Some ?d" and rest: "list_all isDigit cs"
    by (simp_all add: digitVal_digit)
  have ge: "n * 10 + ?d \<le> ?v" by (rule foldl_decimal_ge)
  have max: "maxVal < 18446744073709551616" using Cons.prems(2) by simp
  show ?case
  proof (cases "n \<ge> cutoff10")
    case True
    then have "n * 10 \<ge> 18446744073709551620" by (simp add: cutoff10_value)
    with ge max have "\<not> ?v \<le> maxVal" by linarith
    with True dig show ?thesis by simp
  next
    case False
    note small = False
    show ?thesis
    proof (cases "2 ^ 64 \<le> n * 10 + ?d \<or> n * 10 + ?d > maxVal")
      case True
      with max have "n * 10 + ?d > maxVal" by auto
      with ge have "\<not> ?v \<le> maxVal" by linarith
      with True small dig show ?thesis by (simp add: Let_def)
    next
      case False
      then have le: "n * 10 + ?d \<le> maxVal" by simp
      from Cons.IH [OF rest Cons.prems(2) le] False small dig
      show ?thesis by (simp add: Let_def)
    qed
  qed
qed

text \<open>An error of the loop is the syntax error with 0, or the range error with the maximum.\<close>

lemma uintLoop_error:
  "uintLoop cs maxVal n = (r, Some e) \<Longrightarrow>
   (e = ErrSyntax \<and> r = 0) \<or> (e = ErrRange \<and> r = maxVal)"
  by (induction cs arbitrary: n) (auto simp add: Let_def split: option.splits if_splits)

lemma uintLoop_nondigit:
  "\<not> list_all isDigit cs \<Longrightarrow> \<exists>r e. uintLoop cs maxVal n = (r, Some e)"
proof (induction cs arbitrary: n)
  case Nil
  then show ?case by simp
next
  case (Cons c cs)
  show ?case
  proof (cases "isDigit c")
    case False
    then show ?thesis by (simp add: digitVal_other)
  next
    case True
    with Cons.prems have "\<not> list_all isDigit cs" by simp
    from Cons.IH [OF this] True show ?thesis
      by (auto simp add: digitVal_digit Let_def)
  qed
qed

text \<open>\<open>ParseUint\<close> on a numeral and on any other string.\<close>

lemma ParseUint_digits:
  assumes "digits str" and "bitSize \<le> 64"
  shows "ParseUint str bitSize =
           (if decimal str < 2 ^ bitSize then (decimal str, None)
            else (2 ^ bitSize - 1, Some (NumError ''ParseUint'' str ErrRange)))"
proof -
  from assms(1) have ne: "str \<noteq> []" and all: "list_all isDigit str"
    by (simp_all add: digits_def)
  have "(2::nat) ^ bitSize \<le> 2 ^ 64" using assms(2) by (intro power_increasing) simp_all
  moreover have pos: "(1::nat) \<le> 2 ^ bitSize" by simp
  ultimately have max: "(2::nat) ^ bitSize - 1 < 2 ^ 64" by linarith
  have iff: "(decimal str \<le> 2 ^ bitSize - 1) = (decimal str < 2 ^ bitSize)"
    using pos by linarith
  from uintLoop_digits [OF all max, of 0] iff
  have "uintLoop str (2 ^ bitSize - 1) 0 =
          (if decimal str < 2 ^ bitSize then (decimal str, None)
           else (2 ^ bitSize - 1, Some ErrRange))"
    by (simp add: decimal_def)
  with ne show ?thesis by (simp add: ParseUint_def)
qed

lemma ParseUint_other:
  assumes "\<not> digits str"
  shows "\<exists>r e. ParseUint str bitSize = (r, Some (NumError ''ParseUint'' str e)) \<and>
               ((e = ErrSyntax \<and> r = 0) \<or> (e = ErrRange \<and> r = 2 ^ bitSize - 1))"
proof (cases "str = []")
  case True
  then show ?thesis by (simp add: ParseUint_def syntaxError_def)
next
  case False
  with assms have "\<not> list_all isDigit str" by (simp add: digits_def)
  from uintLoop_nondigit [OF this]
  obtain r e where loop: "uintLoop str (2 ^ bitSize - 1) 0 = (r, Some e)" by blast
  from uintLoop_error [OF loop] loop False show ?thesis
    by (auto simp add: ParseUint_def)
qed

text \<open>\<open>ParseInt\<close> on a signed numeral and on any other string.\<close>

lemma ParseInt_digits:
  assumes "digits (unsignedPart str)" and "2 \<le> bitSize" and "bitSize \<le> 64"
  shows "ParseInt str bitSize =
           (if - (2 ^ (bitSize - 1)) \<le> signedValue str \<and> signedValue str < 2 ^ (bitSize - 1)
            then (signedValue str, None)
            else (if negative str then - (2 ^ (bitSize - 1)) else 2 ^ (bitSize - 1) - 1,
                  Some (NumError ''ParseInt'' str ErrRange)))"
proof -
  define c :: nat where "c = 2 ^ (bitSize - 1)"
  define D where "D = decimal (unsignedPart str)"
  have ne: "str \<noteq> []" using assms(1) by (auto simp add: unsignedPart_def digits_def)
  have neg: "(hd str = CHR ''-'') = negative str" using ne by (simp add: negative_def)
  have part: "(if hd str = CHR ''+'' \<or> hd str = CHR ''-'' then tl str else str) = unsignedPart str"
    using ne by (simp add: unsignedPart_def)
  have two: "(2::nat) ^ bitSize = 2 * c"
    using assms(2) by (simp add: c_def power_eq_if)
  have c2: "2 \<le> c"
  proof -
    have "(2::nat) ^ 1 \<le> 2 ^ (bitSize - 1)" using assms(2) by (intro power_increasing) simp_all
    then show ?thesis by (simp add: c_def)
  qed
  have ic: "(2::int) ^ (bitSize - 1) = int c" by (simp add: c_def)
  have cs: "(2::nat) ^ (bitSize - Suc 0) = c" by (simp add: c_def)
  have sv: "signedValue str = (if negative str then - int D else int D)"
    by (simp add: signedValue_def D_def)
  have pu: "ParseUint (unsignedPart str) bitSize =
              (if D < 2 * c then (D, None)
               else (2 * c - 1, Some (NumError ''ParseUint'' (unsignedPart str) ErrRange)))"
    using ParseUint_digits [OF assms(1,3)] by (simp add: D_def two)
  show ?thesis
  proof (cases "D < 2 * c")
    case True
    with pu have "ParseUint (unsignedPart str) bitSize = (D, None)" by simp
    with ne neg part c2 show ?thesis
      unfolding ic sv
      by (auto simp add: ParseInt_def Let_def rangeError_def cs)
  next
    case False
    with pu have "ParseUint (unsignedPart str) bitSize =
                    (2 * c - 1, Some (NumError ''ParseUint'' (unsignedPart str) ErrRange))"
      by simp
    with ne neg part c2 False show ?thesis
      unfolding ic sv
      by (auto simp add: ParseInt_def Let_def rangeError_def cs)
  qed
qed

lemma ParseInt_other:
  assumes "\<not> digits (unsignedPart str)" and "2 \<le> bitSize"
  shows "\<exists>r e. ParseInt str bitSize = (r, Some (NumError ''ParseInt'' str e))"
proof (cases "str = []")
  case True
  then show ?thesis by (simp add: ParseInt_def syntaxError_def)
next
  case False
  define c :: nat where "c = 2 ^ (bitSize - 1)"
  have part: "(if hd str = CHR ''+'' \<or> hd str = CHR ''-'' then tl str else str) = unsignedPart str"
    using False by (simp add: unsignedPart_def)
  have two: "(2::nat) ^ bitSize = 2 * c"
    using assms(2) by (simp add: c_def power_eq_if)
  have c2: "2 \<le> c"
  proof -
    have "(2::nat) ^ 1 \<le> 2 ^ (bitSize - 1)" using assms(2) by (intro power_increasing) simp_all
    then show ?thesis by (simp add: c_def)
  qed
  have cs: "(2::nat) ^ (bitSize - Suc 0) = c" by (simp add: c_def)
  from ParseUint_other [OF assms(1), of bitSize]
  obtain r e where pu: "ParseUint (unsignedPart str) bitSize =
                          (r, Some (NumError ''ParseUint'' (unsignedPart str) e))"
    and form: "(e = ErrSyntax \<and> r = 0) \<or> (e = ErrRange \<and> r = 2 * c - 1)"
    by (auto simp add: two)
  from form show ?thesis
  proof
    assume "e = ErrSyntax \<and> r = 0"
    with pu False part show ?thesis by (simp add: ParseInt_def Let_def)
  next
    assume "e = ErrRange \<and> r = 2 * c - 1"
    with pu False part c2 show ?thesis
      by (auto simp add: ParseInt_def Let_def rangeError_def cs)
  qed
qed

section \<open>Route.invoke\<close>

lemma invoke_getItem_abc:
  "invoke exampleLib (itemsRoute getItem) [''abc''] [] 0 =
     (Inr ([], Some (Error UnmarshalError (Some (NumError ''ParseInt'' ''abc'' ErrSyntax)))), 0)"
  by (simp add: invoke_def itemsRoute_def getItem_def intType_def bindArg_def parseArg_def
        parse_defs)

lemma bindArgs_42:
  "bindArgs exampleLib route [''42''] [] 0 [intType] [] = Inr [VInt IntKind 42]"
  by (simp add: intType_def bindArg_def parseArg_def parse_defs)

text \<open>
  C2: when the handler has an error output and the call leaves a non-nil error in it,
  \<open>invoke\<close> returns no body and the error of kind \<open>HandlerError\<close> that wraps it,
  whatever the other outputs hold.
\<close>

theorem invoke_handler_error:
  assumes "handler route = Some h" and "handlerType route = Some ht" and "Kind ht = Func"
    and "bindArgs lib route args body 0 (In ht) [] = Inr inp"
    and "hcall h s inp = (out, s')"
    and "0 \<le> outError route"
    and "index out (outError route) = Inr (VError err)"
  shows "invoke lib route args body s = (Inr ([], Some (Error HandlerError (Some err))), s')"
proof -
  have "errorOutput route out = Inr (Some err)"
    using assms(6,7) by (simp add: errorOutput_def nillable_def)
  with invoke_call [OF assms(1-5)] show ?thesis by simp
qed

theorem invoke_handler_error_witness:
  "invoke exampleLib (itemsRoute getItemFails) [''42''] [] 0 =
     (Inr ([], Some (Error HandlerError (Some (ErrorString ''no such item'')))), 1)"
  using invoke_handler_error
          [of "itemsRoute getItemFails" getItemFails "htype getItemFails" exampleLib
              "[''42'']" "[]" "[VInt IntKind 42]" 0
              "[VOther Struct ''Item{}'', VError (ErrorString ''no such item'')]" 1
              "ErrorString ''no such item''"]
    bindArgs_42 [of "itemsRoute getItemFails"]
  by (simp add: itemsRoute_def getItemFails_def index_def)

text \<open>What \<open>parseArg\<close> makes of a string, for each kind it knows, at the bits of the kind.\<close>

lemma parseArg_bool:
  "Kind t = Bool \<Longrightarrow>
   parseArg lib route data t =
     (if data \<in> {''1'', ''t'', ''T'', ''TRUE'', ''true'', ''True''} then Inr (VBool True)
      else if data \<in> {''0'', ''f'', ''F'', ''FALSE'', ''false'', ''False''} then Inr (VBool False)
      else Inl (NumError ''ParseBool'' data ErrSyntax))"
  by (simp add: parseArg_def ParseBool_def syntaxError_def)

lemma parseArg_signed_numeral:
  assumes "(Kind t, w) \<in> {(IntKind, 64), (Int8, 8), (Int16, 16), (Int32, 32), (Int64, 64)}"
  shows
    "(digits (unsignedPart data) \<longrightarrow>
        parseArg lib route data t =
          (if - (2 ^ (w - 1)) \<le> signedValue data \<and> signedValue data < 2 ^ (w - 1)
           then Inr (VInt (Kind t) (signedValue data))
           else Inl (NumError ''ParseInt'' data ErrRange))) \<and>
     (\<not> digits (unsignedPart data) \<longrightarrow>
        (\<exists>e. parseArg lib route data t = Inl (NumError ''ParseInt'' data e)))"
proof -
  from assms have k: "Kind t \<in> signedKinds" and w: "Bits (Kind t) = w" "2 \<le> w" "w \<le> 64"
    by (auto simp add: signedKinds_def)
  have numeral: "parseArg lib route data t =
          (if - (2 ^ (w - 1)) \<le> signedValue data \<and> signedValue data < 2 ^ (w - 1)
           then Inr (VInt (Kind t) (signedValue data))
           else Inl (NumError ''ParseInt'' data ErrRange))"
    if "digits (unsignedPart data)"
    using ParseInt_digits [OF that w(2,3)] by (simp add: parseArg_signed [OF k] w(1))
  have other: "\<exists>e. parseArg lib route data t = Inl (NumError ''ParseInt'' data e)"
    if "\<not> digits (unsignedPart data)"
  proof -
    from ParseInt_other [OF that w(2)]
    obtain r e where "ParseInt data w = (r, Some (NumError ''ParseInt'' data e))" by blast
    then have "parseArg lib route data t = Inl (NumError ''ParseInt'' data e)"
      by (simp add: parseArg_signed [OF k] w(1))
    then show ?thesis by blast
  qed
  from numeral other show ?thesis by blast
qed

lemma parseArg_unsigned_numeral:
  assumes "(Kind t, w) \<in> {(Uint, 64), (Uint8, 8), (Uint16, 16), (Uint32, 32), (Uint64, 64)}"
  shows
    "(digits data \<longrightarrow>
        parseArg lib route data t =
          (if decimal data < 2 ^ w then Inr (VUint (Kind t) (decimal data))
           else Inl (NumError ''ParseUint'' data ErrRange))) \<and>
     (\<not> digits data \<longrightarrow>
        (\<exists>e. parseArg lib route data t = Inl (NumError ''ParseUint'' data e)))"
proof -
  from assms have k: "Kind t \<in> unsignedKinds" and w: "Bits (Kind t) = w" "w \<le> 64"
    by (auto simp add: unsignedKinds_def)
  have numeral: "parseArg lib route data t =
          (if decimal data < 2 ^ w then Inr (VUint (Kind t) (decimal data))
           else Inl (NumError ''ParseUint'' data ErrRange))"
    if "digits data"
    using ParseUint_digits [OF that w(2)] by (simp add: parseArg_unsigned [OF k] w(1))
  have other: "\<exists>e. parseArg lib route data t = Inl (NumError ''ParseUint'' data e)"
    if "\<not> digits data"
  proof -
    from ParseUint_other [OF that, of w]
    obtain r e where "ParseUint data w = (r, Some (NumError ''ParseUint'' data e))" by blast
    then have "parseArg lib route data t = Inl (NumError ''ParseUint'' data e)"
      by (simp add: parseArg_unsigned [OF k] w(1))
    then show ?thesis by blast
  qed
  from numeral other show ?thesis by blast
qed

lemma parseArg_float_bits:
  assumes "(Kind t, w) \<in> {(Float32, 32), (Float64, 64)}"
  shows "parseArg lib route data t =
           (case ParseFloat lib data w of
              (f, None) \<Rightarrow> Inr (VFloat (Kind t) f) | (f, Some err) \<Rightarrow> Inl err)"
proof -
  from assms have k: "Kind t \<in> floatKinds" and w: "Bits (Kind t) = w"
    by (auto simp add: floatKinds_def)
  show ?thesis by (simp add: parseArg_float [OF k] w)
qed

text \<open>
  C3: at a position \<open>i\<close> within the path arguments, the value bound is the one that
  \<open>parseArg\<close> makes of the argument string by the kind of the declared type, and the
  handler is called with the values bound. A string is bound as it is. A boolean is
  true for \<open>1\<close>, \<open>t\<close>, \<open>T\<close>, \<open>TRUE\<close>, \<open>true\<close>, \<open>True\<close>, false for \<open>0\<close>, \<open>f\<close>, \<open>F\<close>, \<open>FALSE\<close>,
  \<open>false\<close>, \<open>False\<close>, and any other string is a syntax error. A signed integer of \<open>w\<close>
  bits (8, 16, 32 or 64; 64 for \<open>int\<close>) is the value of a signed decimal numeral when
  it lies between \<open>- 2 ^ (w - 1)\<close> and \<open>2 ^ (w - 1) - 1\<close>, a range error when it does not,
  and any other string is an error. An unsigned integer of \<open>w\<close> bits is the value of a
  decimal numeral below \<open>2 ^ w\<close>, a range error above, and any other string is an
  error. A float of 32 or 64 bits is what \<open>strconv.ParseFloat\<close> returns at these bits.
  For a signed integer type, \<open>42\<close> is bound to the integer 42, and \<open>abc\<close> makes \<open>invoke\<close>
  return an error of kind \<open>UnmarshalError\<close>, the parse error when the positions before
  bind, in the state it was called in: the handler has not run.
\<close>

theorem invoke_binds_path_arguments:
  fixes route :: "'s Route"
  assumes "handler route = Some h" and "handlerType route = Some ht" and "Kind ht = Func"
    and "i < NumIn ht" and "i < length args"
  shows
    "(\<forall>inp. bindArgs lib route args body 0 (In ht) [] = Inr inp \<longrightarrow>
        parseArg lib route (args ! i) (In ht ! i) = Inr (inp ! i) \<and>
        snd (invoke lib route args body s) = snd (hcall h s inp)) \<and>
     (Kind (In ht ! i) = String \<longrightarrow>
        parseArg lib route (args ! i) (In ht ! i) = Inr (VString (args ! i))) \<and>
     (Kind (In ht ! i) = Bool \<longrightarrow>
        parseArg lib route (args ! i) (In ht ! i) =
          (if args ! i \<in> {''1'', ''t'', ''T'', ''TRUE'', ''true'', ''True''}
           then Inr (VBool True)
           else if args ! i \<in> {''0'', ''f'', ''F'', ''FALSE'', ''false'', ''False''}
           then Inr (VBool False)
           else Inl (NumError ''ParseBool'' (args ! i) ErrSyntax))) \<and>
     (\<forall>w. (Kind (In ht ! i), w) \<in>
             {(IntKind, 64), (Int8, 8), (Int16, 16), (Int32, 32), (Int64, 64)} \<longrightarrow>
        (digits (unsignedPart (args ! i)) \<longrightarrow>
           parseArg lib route (args ! i) (In ht ! i) =
             (if - (2 ^ (w - 1)) \<le> signedValue (args ! i) \<and>
                 signedValue (args ! i) < 2 ^ (w - 1)
              then Inr (VInt (Kind (In ht ! i)) (signedValue (args ! i)))
              else Inl (NumError ''ParseInt'' (args ! i) ErrRange))) \<and>
        (\<not> digits (unsignedPart (args ! i)) \<longrightarrow>
           (\<exists>e. parseArg lib route (args ! i) (In ht ! i) =
                  Inl (NumError ''ParseInt'' (args ! i) e)))) \<and>
     (\<forall>w. (Kind (In ht ! i), w) \<in>
             {(Uint, 64), (Uint8, 8), (Uint16, 16), (Uint32, 32), (Uint64, 64)} \<longrightarrow>
        (digits (args ! i) \<longrightarrow>
           parseArg lib route (args ! i) (In ht ! i) =
             (if decimal (args ! i) < 2 ^ w
              then Inr (VUint (Kind (In ht ! i)) (decimal (args ! i)))
              else Inl (NumError ''ParseUint'' (args ! i) ErrRange))) \<and>
        (\<not> digits (args ! i) \<longrightarrow>
           (\<exists>e. parseArg lib route (args ! i) (In ht ! i) =
                  Inl (NumError ''ParseUint'' (args ! i) e)))) \<and>
     (\<forall>w. (Kind (In ht ! i), w) \<in> {(Float32, 32), (Float64, 64)} \<longrightarrow>
        parseArg lib route (args ! i) (In ht ! i) =
          (case ParseFloat lib (args ! i) w of
             (f, None) \<Rightarrow> Inr (VFloat (Kind (In ht ! i)) f) | (f, Some err) \<Rightarrow> Inl err)) \<and>
     (Kind (In ht ! i) \<in> signedKinds \<and> args ! i = ''42'' \<longrightarrow>
        parseArg lib route (args ! i) (In ht ! i) = Inr (VInt (Kind (In ht ! i)) 42)) \<and>
     (Kind (In ht ! i) \<in> signedKinds \<and> args ! i = ''abc'' \<longrightarrow>
        (\<exists>err. invoke lib route args body s =
                 (Inr ([], Some (Error UnmarshalError (Some err))), s)) \<and>
        ((\<forall>j < i. \<exists>v. bindArg lib route args body j (In ht ! j) = Inr v) \<longrightarrow>
           invoke lib route args body s =
             (Inr ([], Some (Error UnmarshalError
                               (Some (NumError ''ParseInt'' ''abc'' ErrSyntax)))), s)))"
proof -
  have i: "i < length (In ht)" using assms(4) by (simp add: NumIn_def)
  have bound: "\<forall>inp. bindArgs lib route args body 0 (In ht) [] = Inr inp \<longrightarrow>
        parseArg lib route (args ! i) (In ht ! i) = Inr (inp ! i) \<and>
        snd (invoke lib route args body s) = snd (hcall h s inp)"
  proof (intro allI impI conjI)
    fix inp assume ok: "bindArgs lib route args body 0 (In ht) [] = Inr inp"
    have "bindArg lib route args body i (In ht ! i) = Inr (inp ! i)"
      using bindArgs_Inr [OF ok, THEN conjunct2, THEN conjunct2, rule_format, OF i] by simp
    with assms(5) show "parseArg lib route (args ! i) (In ht ! i) = Inr (inp ! i)"
      by (simp add: bindArg_def)
    obtain out s' where call: "hcall h s inp = (out, s')" by (cases "hcall h s inp")
    from invoke_call [OF assms(1-3) ok call] call
    show "snd (invoke lib route args body s) = snd (hcall h s inp)"
      by (simp split: sum.splits option.splits)
  qed
  have abc: "Kind (In ht ! i) \<in> signedKinds \<and> args ! i = ''abc'' \<longrightarrow>
        (\<exists>err. invoke lib route args body s =
                 (Inr ([], Some (Error UnmarshalError (Some err))), s)) \<and>
        ((\<forall>j < i. \<exists>v. bindArg lib route args body j (In ht ! j) = Inr v) \<longrightarrow>
           invoke lib route args body s =
             (Inr ([], Some (Error UnmarshalError
                               (Some (NumError ''ParseInt'' ''abc'' ErrSyntax)))), s))"
  proof (intro impI, elim conjE)
    assume k: "Kind (In ht ! i) \<in> signedKinds" and a: "args ! i = ''abc''"
    have fails: "bindArg lib route args body (0 + i) (In ht ! i) =
                   Inl (NumError ''ParseInt'' ''abc'' ErrSyntax)"
      using assms(5) k a by (simp add: bindArg_def parseArg_signed ParseInt_abc)
    from bindArgs_Inl_some [OF i fails]
    obtain e' where "bindArgs lib route args body 0 (In ht) [] = Inl e'" by blast
    from invoke_bind_error [OF assms(1-3) this]
    have first: "\<exists>err. invoke lib route args body s =
                   (Inr ([], Some (Error UnmarshalError (Some err))), s)" by blast
    have "invoke lib route args body s =
             (Inr ([], Some (Error UnmarshalError
                               (Some (NumError ''ParseInt'' ''abc'' ErrSyntax)))), s)"
      if before: "\<forall>j < i. \<exists>v. bindArg lib route args body j (In ht ! j) = Inr v"
    proof -
      from before have "\<forall>j < i. \<exists>v. bindArg lib route args body (0 + j) (In ht ! j) = Inr v"
        by simp
      from bindArgs_Inl_first [OF i fails this]
      have "bindArgs lib route args body 0 (In ht) [] =
              Inl (NumError ''ParseInt'' ''abc'' ErrSyntax)" .
      from invoke_bind_error [OF assms(1-3) this] show ?thesis .
    qed
    with first show "(\<exists>err. invoke lib route args body s =
                 (Inr ([], Some (Error UnmarshalError (Some err))), s)) \<and>
        ((\<forall>j < i. \<exists>v. bindArg lib route args body j (In ht ! j) = Inr v) \<longrightarrow>
           invoke lib route args body s =
             (Inr ([], Some (Error UnmarshalError
                               (Some (NumError ''ParseInt'' ''abc'' ErrSyntax)))), s))"
      by blast
  qed
  have str: "Kind (In ht ! i) = String \<longrightarrow>
        parseArg lib route (args ! i) (In ht ! i) = Inr (VString (args ! i))"
    by (simp add: parseArg_def)
  have bool: "Kind (In ht ! i) = Bool \<longrightarrow>
        parseArg lib route (args ! i) (In ht ! i) =
          (if args ! i \<in> {''1'', ''t'', ''T'', ''TRUE'', ''true'', ''True''}
           then Inr (VBool True)
           else if args ! i \<in> {''0'', ''f'', ''F'', ''FALSE'', ''false'', ''False''}
           then Inr (VBool False)
           else Inl (NumError ''ParseBool'' (args ! i) ErrSyntax))"
    using parseArg_bool [of "In ht ! i" lib route "args ! i"] by (rule impI)
  have fortytwo: "Kind (In ht ! i) \<in> signedKinds \<and> args ! i = ''42'' \<longrightarrow>
        parseArg lib route (args ! i) (In ht ! i) = Inr (VInt (Kind (In ht ! i)) 42)"
    by (simp add: parseArg_signed ParseInt_42)
  have signed: "\<forall>w. (Kind (In ht ! i), w) \<in>
             {(IntKind, 64), (Int8, 8), (Int16, 16), (Int32, 32), (Int64, 64)} \<longrightarrow>
        (digits (unsignedPart (args ! i)) \<longrightarrow>
           parseArg lib route (args ! i) (In ht ! i) =
             (if - (2 ^ (w - 1)) \<le> signedValue (args ! i) \<and>
                 signedValue (args ! i) < 2 ^ (w - 1)
              then Inr (VInt (Kind (In ht ! i)) (signedValue (args ! i)))
              else Inl (NumError ''ParseInt'' (args ! i) ErrRange))) \<and>
        (\<not> digits (unsignedPart (args ! i)) \<longrightarrow>
           (\<exists>e. parseArg lib route (args ! i) (In ht ! i) =
                  Inl (NumError ''ParseInt'' (args ! i) e)))"
    using parseArg_signed_numeral [of "In ht ! i" _ "args ! i" lib route]
    by (intro allI impI)
  have unsigned: "\<forall>w. (Kind (In ht ! i), w) \<in>
             {(Uint, 64), (Uint8, 8), (Uint16, 16), (Uint32, 32), (Uint64, 64)} \<longrightarrow>
        (digits (args ! i) \<longrightarrow>
           parseArg lib route (args ! i) (In ht ! i) =
             (if decimal (args ! i) < 2 ^ w
              then Inr (VUint (Kind (In ht ! i)) (decimal (args ! i)))
              else Inl (NumError ''ParseUint'' (args ! i) ErrRange))) \<and>
        (\<not> digits (args ! i) \<longrightarrow>
           (\<exists>e. parseArg lib route (args ! i) (In ht ! i) =
                  Inl (NumError ''ParseUint'' (args ! i) e)))"
    using parseArg_unsigned_numeral [of "In ht ! i" _ "args ! i" lib route]
    by (intro allI impI)
  have float: "\<forall>w. (Kind (In ht ! i), w) \<in> {(Float32, 32), (Float64, 64)} \<longrightarrow>
        parseArg lib route (args ! i) (In ht ! i) =
          (case ParseFloat lib (args ! i) w of
             (f, None) \<Rightarrow> Inr (VFloat (Kind (In ht ! i)) f) | (f, Some err) \<Rightarrow> Inl err)"
    using parseArg_float_bits [of "In ht ! i" _ lib route "args ! i"]
    by (intro allI impI)
  show ?thesis
    by (intro conjI) (rule bound str bool signed unsigned float fortytwo abc)+
qed

lemmas numeral_defs =
  digits_def isDigit_def decimal_def negative_def unsignedPart_def signedValue_def

theorem invoke_binds_path_arguments_witness:
  "parseArg exampleLib (itemsRoute getItem) ''42'' intType = Inr (VInt IntKind 42) \<and>
   snd (invoke exampleLib (itemsRoute getItem) [''42''] [] 0) = 1 \<and>
   invoke exampleLib (itemsRoute getItem) [''abc''] [] 0 =
     (Inr ([], Some (Error UnmarshalError (Some (NumError ''ParseInt'' ''abc'' ErrSyntax)))), 0) \<and>
   parseArg exampleLib flagsRoute ''true'' boolType = Inr (VBool True) \<and>
   parseArg exampleLib flagsRoute ''maybe'' boolType =
     Inl (NumError ''ParseBool'' ''maybe'' ErrSyntax) \<and>
   parseArg exampleLib flagsRoute ''-128'' int8Type = Inr (VInt Int8 (- 128)) \<and>
   parseArg exampleLib flagsRoute ''128'' int8Type = Inl (NumError ''ParseInt'' ''128'' ErrRange) \<and>
   parseArg exampleLib flagsRoute ''255'' uint8Type = Inr (VUint Uint8 255) \<and>
   parseArg exampleLib flagsRoute ''256'' uint8Type = Inl (NumError ''ParseUint'' ''256'' ErrRange) \<and>
   parseArg exampleLib flagsRoute ''Joe'' stringType = Inr (VString ''Joe'')"
proof -
  have one: "parseArg exampleLib (itemsRoute getItem) ''42'' intType = Inr (VInt IntKind 42) \<and>
             snd (invoke exampleLib (itemsRoute getItem) [''42''] [] 0) = 1"
    using invoke_binds_path_arguments
            [of "itemsRoute getItem" getItem "htype getItem" 0 "[''42'']" exampleLib "[]" 0]
      bindArgs_42 [of "itemsRoute getItem"]
    by (simp add: itemsRoute_def getItem_def intType_def NumIn_def signedKinds_def)
  have two: "invoke exampleLib (itemsRoute getItem) [''abc''] [] 0 =
     (Inr ([], Some (Error UnmarshalError (Some (NumError ''ParseInt'' ''abc'' ErrSyntax)))), 0)"
    using invoke_binds_path_arguments
            [of "itemsRoute getItem" getItem "htype getItem" 0 "[''abc'']" exampleLib "[]" 0]
    by (simp add: itemsRoute_def getItem_def intType_def NumIn_def signedKinds_def)
  have "parseArg exampleLib flagsRoute ''true'' boolType = Inr (VBool True)"
    using invoke_binds_path_arguments
            [of flagsRoute setFlags "htype setFlags" 0 "[''true'']" exampleLib "[]" 0]
    by (simp add: flagsRoute_def setFlags_def boolType_def NumIn_def)
  moreover have "parseArg exampleLib flagsRoute ''maybe'' boolType =
                   Inl (NumError ''ParseBool'' ''maybe'' ErrSyntax)"
    using invoke_binds_path_arguments
            [of flagsRoute setFlags "htype setFlags" 0 "[''maybe'']" exampleLib "[]" 0]
    by (simp add: flagsRoute_def setFlags_def boolType_def NumIn_def)
  moreover have "parseArg exampleLib flagsRoute ''-128'' int8Type = Inr (VInt Int8 (- 128))"
    using invoke_binds_path_arguments
            [of flagsRoute setFlags "htype setFlags" 1 "[''true'', ''-128'']" exampleLib "[]" 0]
    by (simp add: flagsRoute_def setFlags_def int8Type_def NumIn_def numeral_defs)
  moreover have "parseArg exampleLib flagsRoute ''128'' int8Type =
                   Inl (NumError ''ParseInt'' ''128'' ErrRange)"
    using invoke_binds_path_arguments
            [of flagsRoute setFlags "htype setFlags" 1 "[''true'', ''128'']" exampleLib "[]" 0]
    by (simp add: flagsRoute_def setFlags_def int8Type_def NumIn_def numeral_defs)
  moreover have "parseArg exampleLib flagsRoute ''255'' uint8Type = Inr (VUint Uint8 255)"
    using invoke_binds_path_arguments
            [of flagsRoute setFlags "htype setFlags" 2 "[''true'', ''1'', ''255'']" exampleLib
                "[]" 0]
    by (simp add: flagsRoute_def setFlags_def uint8Type_def NumIn_def numeral_defs)
  moreover have "parseArg exampleLib flagsRoute ''256'' uint8Type =
                   Inl (NumError ''ParseUint'' ''256'' ErrRange)"
    using invoke_binds_path_arguments
            [of flagsRoute setFlags "htype setFlags" 2 "[''true'', ''1'', ''256'']" exampleLib
                "[]" 0]
    by (simp add: flagsRoute_def setFlags_def uint8Type_def NumIn_def numeral_defs)
  moreover have "parseArg exampleLib flagsRoute ''Joe'' stringType = Inr (VString ''Joe'')"
    using invoke_binds_path_arguments
            [of flagsRoute setFlags "htype setFlags" 3 "[''true'', ''1'', ''2'', ''Joe'']"
                exampleLib "[]" 0]
    by (simp add: flagsRoute_def setFlags_def stringType_def NumIn_def)
  ultimately show ?thesis using one two by simp
qed

lemma bodyOutput_none: "outBody route < 0 \<Longrightarrow> bodyOutput lib route out = Inr ([], None)"
  by (simp add: bodyOutput_def)

lemma bodyOutput_value:
  assumes "0 \<le> outBody route" and "index out (outBody route) = Inr v" and "validValue v"
  shows "bodyOutput lib route out =
           (if emptyValue v then Inr ([], None)
            else case Marshal lib v of
                   Inl err \<Rightarrow> Inr ([], Some (Error MarshalError (Some err)))
                 | Inr b \<Rightarrow> Inr (b @ [CHR 0x0A], None))"
  using assms by (simp add: bodyOutput_def isNil_emptyValue Encode_def split: sum.splits)

text \<open>
  C4: after a call that leaves no error, \<open>invoke\<close> returns the empty body when the
  handler has no body output; and for a body output \<open>v\<close> it returns the empty body
  exactly when \<open>v\<close> is the empty string or a nil pointer, slice, map, interface or
  channel, and otherwise the JSON encoding of \<open>v\<close> followed by a newline, or the error
  of kind \<open>MarshalError\<close> when the encoding fails. A value of another kind, zero or
  not, is not empty.
\<close>

theorem invoke_body_output:
  assumes "handler route = Some h" and "handlerType route = Some ht" and "Kind ht = Func"
    and "bindArgs lib route args body 0 (In ht) [] = Inr inp"
    and "hcall h s inp = (out, s')"
    and "errorOutput route out = Inr None"
  shows
    "(outBody route < 0 \<longrightarrow> invoke lib route args body s = (Inr ([], None), s')) \<and>
     (\<forall>v. 0 \<le> outBody route \<and> index out (outBody route) = Inr v \<and> validValue v \<longrightarrow>
        (emptyValue v \<longrightarrow> invoke lib route args body s = (Inr ([], None), s')) \<and>
        (\<not> emptyValue v \<longrightarrow>
           (\<forall>b. Marshal lib v = Inr b \<longrightarrow>
              invoke lib route args body s = (Inr (b @ [CHR 0x0A], None), s')) \<and>
           (\<forall>err. Marshal lib v = Inl err \<longrightarrow>
              invoke lib route args body s =
                (Inr ([], Some (Error MarshalError (Some err))), s'))) \<and>
        (invoke lib route args body s = (Inr ([], None), s') \<longleftrightarrow> emptyValue v) \<and>
        (ValueKind v \<notin> {String, Chan, Interface, Map, Ptr, Slice} \<longrightarrow> \<not> emptyValue v))"
proof -
  have inv: "invoke lib route args body s = (bodyOutput lib route out, s')"
    using invoke_call [OF assms(1-5)] assms(6) by simp
  have none: "outBody route < 0 \<longrightarrow> invoke lib route args body s = (Inr ([], None), s')"
    using inv by (simp add: bodyOutput_none)
  have some: "\<forall>v. 0 \<le> outBody route \<and> index out (outBody route) = Inr v \<and> validValue v \<longrightarrow>
        (emptyValue v \<longrightarrow> invoke lib route args body s = (Inr ([], None), s')) \<and>
        (\<not> emptyValue v \<longrightarrow>
           (\<forall>b. Marshal lib v = Inr b \<longrightarrow>
              invoke lib route args body s = (Inr (b @ [CHR 0x0A], None), s')) \<and>
           (\<forall>err. Marshal lib v = Inl err \<longrightarrow>
              invoke lib route args body s =
                (Inr ([], Some (Error MarshalError (Some err))), s'))) \<and>
        (invoke lib route args body s = (Inr ([], None), s') \<longleftrightarrow> emptyValue v) \<and>
        (ValueKind v \<notin> {String, Chan, Interface, Map, Ptr, Slice} \<longrightarrow> \<not> emptyValue v)"
  proof (intro allI impI, elim conjE)
    fix v
    assume v: "0 \<le> outBody route" "index out (outBody route) = Inr v" "validValue v"
    have kinds: "ValueKind v \<notin> {String, Chan, Interface, Map, Ptr, Slice} \<longrightarrow> \<not> emptyValue v"
      by (cases v) auto
    show "(emptyValue v \<longrightarrow> invoke lib route args body s = (Inr ([], None), s')) \<and>
        (\<not> emptyValue v \<longrightarrow>
           (\<forall>b. Marshal lib v = Inr b \<longrightarrow>
              invoke lib route args body s = (Inr (b @ [CHR 0x0A], None), s')) \<and>
           (\<forall>err. Marshal lib v = Inl err \<longrightarrow>
              invoke lib route args body s =
                (Inr ([], Some (Error MarshalError (Some err))), s'))) \<and>
        (invoke lib route args body s = (Inr ([], None), s') \<longleftrightarrow> emptyValue v) \<and>
        (ValueKind v \<notin> {String, Chan, Interface, Map, Ptr, Slice} \<longrightarrow> \<not> emptyValue v)"
      using kinds by (simp add: inv bodyOutput_value [OF v] split: sum.splits)
  qed
  from none some show ?thesis by (rule conjI)
qed

lemma invoke_getItem_7:
  "invoke exampleLib (itemsRoute getItem) [''7''] [] 0 = (Inr (''{}'' @ [CHR 0x0A], None), 1)"
  by (simp add: invoke_def itemsRoute_def getItem_def intType_def bindArg_def parseArg_def
        parse_defs errorOutput_def bodyOutput_def index_def nillable_def isNil_def Encode_def
        exampleLib_def)

theorem invoke_body_output_witness:
  "invoke exampleLib (itemsRoute getItem) [''42''] [] 0 = (Inr (''{}'' @ [CHR 0x0A], None), 1) \<and>
   invoke exampleLib (itemsRoute countItems) [''42''] [] 0 = (Inr (''0'' @ [CHR 0x0A], None), 1) \<and>
   invoke exampleLib (itemsRoute getName) [''42''] [] 0 = (Inr ([], None), 1) \<and>
   invoke exampleLib (itemsRoute getChannel) [''42''] [] 0 =
     (Inr ([], Some (Error MarshalError (Some (ErrorString ''json: unsupported type'')))), 1) \<and>
   invoke exampleLib deleteItemRoute [''42''] [] 0 = (Inr ([], None), 1)"
proof -
  have one: "invoke exampleLib (itemsRoute getItem) [''42''] [] 0 =
               (Inr (''{}'' @ [CHR 0x0A], None), 1)"
    using invoke_body_output
            [of "itemsRoute getItem" getItem "htype getItem" exampleLib "[''42'']" "[]"
                "[VInt IntKind 42]" 0 "[VOther Struct ''Item{}'', VNil Interface]" 1]
      bindArgs_42 [of "itemsRoute getItem"]
    by (simp add: itemsRoute_def getItem_def index_def errorOutput_def nillable_def
          exampleLib_def)
  have two: "invoke exampleLib (itemsRoute countItems) [''42''] [] 0 =
               (Inr (''0'' @ [CHR 0x0A], None), 1)"
    using invoke_body_output
            [of "itemsRoute countItems" countItems "htype countItems" exampleLib "[''42'']"
                "[]" "[VInt IntKind 42]" 0 "[VInt IntKind 0, VNil Interface]" 1]
      bindArgs_42 [of "itemsRoute countItems"]
    by (simp add: itemsRoute_def countItems_def index_def errorOutput_def nillable_def
          exampleLib_def)
  have three: "invoke exampleLib (itemsRoute getName) [''42''] [] 0 = (Inr ([], None), 1)"
    using invoke_body_output
            [of "itemsRoute getName" getName "htype getName" exampleLib "[''42'']" "[]"
                "[VInt IntKind 42]" 0 "[VString [], VNil Interface]" 1]
      bindArgs_42 [of "itemsRoute getName"]
    by (simp add: itemsRoute_def getName_def index_def errorOutput_def nillable_def)
  have four: "invoke exampleLib (itemsRoute getChannel) [''42''] [] 0 =
     (Inr ([], Some (Error MarshalError (Some (ErrorString ''json: unsupported type'')))), 1)"
    using invoke_body_output
            [of "itemsRoute getChannel" getChannel "htype getChannel" exampleLib "[''42'']"
                "[]" "[VInt IntKind 42]" 0 "[VOther Chan ''chan int'', VNil Interface]" 1]
      bindArgs_42 [of "itemsRoute getChannel"]
    by (simp add: itemsRoute_def getChannel_def index_def errorOutput_def nillable_def
          exampleLib_def)
  have five: "invoke exampleLib deleteItemRoute [''42''] [] 0 = (Inr ([], None), 1)"
    using invoke_body_output
            [of deleteItemRoute deleteItem "htype deleteItem" exampleLib "[''42'']" "[]"
                "[VInt IntKind 42]" 0 "[VNil Interface]" 1]
      bindArgs_42 [of deleteItemRoute]
    by (simp add: deleteItemRoute_def deleteItem_def index_def errorOutput_def nillable_def)
  from one two three four five show ?thesis by simp
qed

section \<open>Input types that no path segment can give\<close>

text \<open>
  C5, as stated, fails: \<open>func(item Item) error\<close> on \<open>/items/:id\<close> has a struct as its
  path argument; \<open>NewRoute\<close> returns the route, and it is \<open>invoke\<close> that returns the
  error, of kind \<open>UnmarshalError\<close>, for the request.
\<close>

theorem unsupported_input_counterexample:
  "Kind (In (htype takesItem) ! 0) = Struct \<and>
   NumIn (htype takesItem) = NumArgs itemsPath \<and>
   NewRoute itemsPath ''GET'' (Some takesItem) = Inr takesItemRoute \<and>
   invoke exampleLib takesItemRoute [''7''] [] 0 =
     (Inr ([], Some (Error UnmarshalError
                       (Some (Errorf ''unsupported argument type for route '%s %s': %s''
                                [ArgString ''GET'', ArgPath itemsPath, ArgKind Struct])))), 0)"
  by (simp add: Init_def init_def invoke_def takesItemRoute_def bindArg_def parseArg_def
        example_defs)

text \<open>
  C5, amended: \<open>init\<close> reads the number of inputs of the handler and never their types,
  so that a handler passes or fails it whatever the types of its inputs are. An input
  within the path arguments whose type is not text, boolean, signed or unsigned
  integer, or floating point is found by \<open>invoke\<close>, at each request: it returns an error
  of kind \<open>UnmarshalError\<close>, the "unsupported argument type" error when the positions
  before bind, and the handler has not run.
\<close>

theorem unsupported_input_per_request:
  fixes route :: "'s Route" and r :: "'s Route"
  assumes "handler route = Some h" and "handlerType route = Some ht" and "Kind ht = Func"
    and "i < NumIn ht" and "i < length args" and "Kind (In ht ! i) \<notin> pathKinds"
  shows
    "(\<exists>err. invoke lib route args body s =
              (Inr ([], Some (Error UnmarshalError (Some err))), s)) \<and>
     ((\<forall>j < i. \<exists>v. bindArg lib route args body j (In ht ! j) = Inr v) \<longrightarrow>
        invoke lib route args body s =
          (Inr ([], Some (Error UnmarshalError
                  (Some (Errorf ''unsupported argument type for route '%s %s': %s''
                           [ArgString (Method route), ArgPath (Path route),
                            ArgKind (Kind (In ht ! i))])))), s)) \<and>
     (length ins = length ins' \<longrightarrow>
        ((\<exists>r'. init (r\<lparr>Handler := Some (HandlerValue (GoType Func nm ins outs) f)\<rparr>) = Inr r')
           \<longleftrightarrow>
         (\<exists>r'. init (r\<lparr>Handler := Some (HandlerValue (GoType Func nm' ins' outs) f')\<rparr>) = Inr r')))"
proof -
  have i: "i < length (In ht)" using assms(4) by (simp add: NumIn_def)
  have fails: "bindArg lib route args body (0 + i) (In ht ! i) =
                 Inl (Errorf ''unsupported argument type for route '%s %s': %s''
                        [ArgString (Method route), ArgPath (Path route),
                         ArgKind (Kind (In ht ! i))])"
    using assms(5,6) by (simp add: bindArg_def parseArg_unsupported)
  from bindArgs_Inl_some [OF i fails]
  obtain e' where "bindArgs lib route args body 0 (In ht) [] = Inl e'" by blast
  from invoke_bind_error [OF assms(1-3) this]
  have first: "\<exists>err. invoke lib route args body s =
                 (Inr ([], Some (Error UnmarshalError (Some err))), s)" by blast
  have second: "(\<forall>j < i. \<exists>v. bindArg lib route args body j (In ht ! j) = Inr v) \<longrightarrow>
        invoke lib route args body s =
          (Inr ([], Some (Error UnmarshalError
                  (Some (Errorf ''unsupported argument type for route '%s %s': %s''
                           [ArgString (Method route), ArgPath (Path route),
                            ArgKind (Kind (In ht ! i))])))), s)"
  proof
    assume "\<forall>j < i. \<exists>v. bindArg lib route args body j (In ht ! j) = Inr v"
    then have "\<forall>j < i. \<exists>v. bindArg lib route args body (0 + j) (In ht ! j) = Inr v"
      by simp
    from bindArgs_Inl_first [OF i fails this]
    have "bindArgs lib route args body 0 (In ht) [] =
            Inl (Errorf ''unsupported argument type for route '%s %s': %s''
                   [ArgString (Method route), ArgPath (Path route),
                    ArgKind (Kind (In ht ! i))])" .
    from invoke_bind_error [OF assms(1-3) this]
    show "invoke lib route args body s =
          (Inr ([], Some (Error UnmarshalError
                  (Some (Errorf ''unsupported argument type for route '%s %s': %s''
                           [ArgString (Method route), ArgPath (Path route),
                            ArgKind (Kind (In ht ! i))])))), s)" .
  qed
  have third: "length ins = length ins' \<longrightarrow>
        ((\<exists>r'. init (r\<lparr>Handler := Some (HandlerValue (GoType Func nm ins outs) f)\<rparr>) = Inr r')
           \<longleftrightarrow>
         (\<exists>r'. init (r\<lparr>Handler := Some (HandlerValue (GoType Func nm' ins' outs) f')\<rparr>) = Inr r'))"
    using init_returns_iff [of "r\<lparr>Handler := Some (HandlerValue (GoType Func nm ins outs) f)\<rparr>"]
      init_returns_iff [of "r\<lparr>Handler := Some (HandlerValue (GoType Func nm' ins' outs) f')\<rparr>"]
    by (simp add: NumIn_def NumOut_def)
  from first second third show ?thesis by (intro conjI)
qed

theorem unsupported_input_per_request_witness:
  "invoke exampleLib takesItemRoute [''7''] [] 0 =
     (Inr ([], Some (Error UnmarshalError
                       (Some (Errorf ''unsupported argument type for route '%s %s': %s''
                                [ArgString ''GET'', ArgPath itemsPath, ArgKind Struct])))), 0) \<and>
   (\<exists>r'. init (newRoute itemsPath ''GET'' (Some takesItem)) = Inr r')"
  using unsupported_input_per_request
          [where route = takesItemRoute and h = takesItem and ht = "htype takesItem"
             and i = 0 and args = "[''7'']" and lib = exampleLib and body = "[]" and s = 0
             and ins = "[itemType]" and ins' = "[intType]"
             and r = "newRoute itemsPath ''GET'' None"
             and nm = "''func(Item) error''" and outs = "[errorType]"
             and f = "hcall takesItem" and nm' = "''func(int) error''"
             and f' = "hcall takesItem"]
    init_returns_iff [of "newRoute itemsPath ''GET''
                      (Some (HandlerValue (GoType Func ''func(int) error'' [intType] [errorType])
                               (hcall takesItem)))"]
  by (simp add: takesItemRoute_def takesItem_def itemType_def intType_def errorType_def
        NumIn_def NumOut_def NumArgs_def itemsPath_def pathKinds_def signedKinds_def
        unsignedKinds_def floatKinds_def newRoute_def)

section \<open>Mux\<close>

lemma Mux_Init_oneMux:
  "Mux_Init (oneMux route) =
     \<lparr>Root = ''/'', ErrorFunc = None, DefaultHandler = Some DefaultServeMux,
      muxInitialize = True, router = oneRouter route\<rparr>"
  by (simp add: Mux_Init_def Mux_init_def oneMux_def)


lemma Mux_Init_DefaultHandler:
  "\<not> muxInitialize mux \<Longrightarrow>
   DefaultHandler (Mux_Init mux) =
     (case DefaultHandler mux of None \<Rightarrow> Some DefaultServeMux | Some h \<Rightarrow> Some h)"
  by (auto simp add: Mux_Init_def Mux_init_def Let_def split: option.splits)

lemma route_items_7:
  "Mux_route (Mux_Init (oneMux (itemsRoute h))) ''GET'' ''/items/7'' =
     (Some (itemsRoute h), [''7''], None)"
  by (simp add: Mux_Init_oneMux Mux_route_def HasPrefix_def oneRouter_def itemsRoute_def)

lemma route_items_7_extra:
  "Mux_route (Mux_Init (oneMux (itemsRoute h))) ''GET'' ''/items/7/extra'' =
     (None, [], Some (unknownPath ''/items/7/extra''))"
  by (simp add: Mux_Init_oneMux Mux_route_def HasPrefix_def oneRouter_def itemsRoute_def)


text \<open>The kinds of error that \<open>invoke\<close> builds.\<close>

lemma bodyOutput_kinds:
  "bodyOutput lib route out = Inr (resp, Some e) \<Longrightarrow> Type e = MarshalError"
  by (auto simp add: bodyOutput_def split: if_splits sum.splits bool.splits)

lemma invoke_kinds:
  assumes "invoke lib route args body s = (Inr (resp, Some e), s')"
  shows "Type e \<in> {UnmarshalError, HandlerError, MarshalError}"
proof (cases "handler route")
  case None
  with assms show ?thesis by (simp add: invoke_def)
next
  case (Some h)
  note h = Some
  show ?thesis
  proof (cases "handlerType route")
    case None
    with assms h show ?thesis by (simp add: invoke_def)
  next
    case (Some ht)
    note ht = Some
    show ?thesis
    proof (cases "Kind ht = Func")
      case False
      with assms h ht show ?thesis by (simp add: invoke_def)
    next
      case True
      show ?thesis
      proof (cases "bindArgs lib route args body 0 (In ht) []")
        case (Inl err)
        from invoke_bind_error [OF h ht True Inl, of s] assms show ?thesis by simp
      next
        case (Inr inp)
        obtain out s1 where call: "hcall h s inp = (out, s1)" by (cases "hcall h s inp")
        from invoke_call [OF h ht True Inr call] assms
        show ?thesis
          by (auto split: sum.splits option.splits
                dest: bodyOutput_kinds bodyOutput_kinds [OF sym])
      qed
    qed
  qed
qed

text \<open>What \<open>serve\<close> returns for a request without a route, and for one with a route.\<close>

lemma serve_no_route:
  "Mux_route mux (reqMethod req) (URLPath req) = (r, a, Some err) \<Longrightarrow>
   serve lib mux req s = (Inr UseDefaultHandler, s)"
  by (simp add: serve_def)

lemma serve_route:
  "Mux_route mux (reqMethod req) (URLPath req) = (r, a, None) \<Longrightarrow>
   serve lib mux req s =
     (if Get (reqHeader req) ''Content-Type'' \<noteq> ''application/json'' then
        (Inr (RespondError UnsupportedContentType StatusBadRequest
                (Some (unsupportedContentType (Get (reqHeader req) ''Content-Type'')))), s)
      else
        (case reqBody req of
           Inl err \<Rightarrow> (Inr (RespondError ReadBodyError StatusBadRequest (Some err)), s)
         | Inr body \<Rightarrow>
             (case r of
                None \<Rightarrow> (Inl NilPointer, s)
              | Some route \<Rightarrow>
                  (case invoke lib route a body s of
                     (Inl p, s') \<Rightarrow> (Inl p, s')
                   | (Inr (resp, Some restError), s') \<Rightarrow>
                       (Inr (RespondError (Type restError) StatusBadRequest (Sub restError)), s')
                   | (Inr (resp, None), s') \<Rightarrow> (Inr (Respond resp), s')))))"
  by (simp add: serve_def Let_def)



text \<open>
  C6, as stated, fails: with \<open>GET /items/:id\<close> as the only route, the router has nothing
  for \<open>GET /items/7/extra\<close>; \<open>ServeHTTP\<close> answers with no error of kind \<open>UnknownRoute\<close>,
  it hands the request to the default handler, here \<open>http.DefaultServeMux\<close>.
\<close>

theorem no_route_counterexample:
  "router (Mux_Init (oneMux (itemsRoute getItem))) ''GET'' ''items/7/extra'' = (None, []) \<and>
   serve exampleLib (Mux_Init (oneMux (itemsRoute getItem)))
     (getRequest ''/items/7/extra'' jsonHeader) 0 = (Inr UseDefaultHandler, 0) \<and>
   ServeHTTP exampleLib (oneMux (itemsRoute getItem))
     (getRequest ''/items/7/extra'' jsonHeader) 0 = (Inr (Delegated DefaultServeMux), 0)"
proof -
  have route: "Mux_route (Mux_Init (oneMux (itemsRoute getItem)))
                 (reqMethod (getRequest ''/items/7/extra'' jsonHeader))
                 (URLPath (getRequest ''/items/7/extra'' jsonHeader)) =
               (None, [], Some (unknownPath ''/items/7/extra''))"
    by (simp add: getRequest_def route_items_7_extra)
  have "router (Mux_Init (oneMux (itemsRoute getItem))) ''GET'' ''items/7/extra'' = (None, [])"
    by (simp add: Mux_Init_oneMux oneRouter_def itemsRoute_def)
  moreover note serve_no_route [OF route, of exampleLib 0]
  moreover from serve_no_route [OF route, of exampleLib 0]
  have "ServeHTTP exampleLib (oneMux (itemsRoute getItem))
          (getRequest ''/items/7/extra'' jsonHeader) 0 = (Inr (Delegated DefaultServeMux), 0)"
    by (simp add: ServeHTTP_def answer_def Mux_Init_oneMux)
  ultimately show ?thesis by simp
qed

text \<open>
  C6, amended: when the path of the request does not start with the root of the mux, or
  the router has no route for the method and the rest of the path, \<open>Mux.route\<close> returns
  no route and the "unknown path" error, and \<open>ServeHTTP\<close> hands the request to the
  default handler of the mux, which is \<open>http.DefaultServeMux\<close> unless another was set
  before the first use; no handler of a route has run.
\<close>

theorem no_route_uses_default_handler:
  assumes "\<not> HasPrefix (URLPath req) (Root (Mux_Init mux)) \<or>
           fst (router (Mux_Init mux) (reqMethod req)
                  (drop (length (Root (Mux_Init mux))) (URLPath req))) = None"
  shows
    "Mux_route (Mux_Init mux) (reqMethod req) (URLPath req) =
       (None, [], Some (unknownPath (URLPath req))) \<and>
     serve lib (Mux_Init mux) req s = (Inr UseDefaultHandler, s) \<and>
     ServeHTTP lib mux req s =
       (case DefaultHandler (Mux_Init mux) of
          None \<Rightarrow> Inl NilPointer | Some h \<Rightarrow> Inr (Delegated h), s) \<and>
     (\<not> muxInitialize mux \<and> DefaultHandler mux = None \<longrightarrow>
        ServeHTTP lib mux req s = (Inr (Delegated DefaultServeMux), s))"
proof -
  have route: "Mux_route (Mux_Init mux) (reqMethod req) (URLPath req) =
                 (None, [], Some (unknownPath (URLPath req)))"
    using assms by (auto simp add: Mux_route_def Let_def split: prod.splits option.splits)
  note miss = serve_no_route [OF route, of lib s]
  have served: "ServeHTTP lib mux req s =
       (case DefaultHandler (Mux_Init mux) of
          None \<Rightarrow> Inl NilPointer | Some h \<Rightarrow> Inr (Delegated h), s)"
    using miss by (simp add: ServeHTTP_def answer_def)
  have "\<not> muxInitialize mux \<and> DefaultHandler mux = None \<longrightarrow>
        ServeHTTP lib mux req s = (Inr (Delegated DefaultServeMux), s)"
    using served by (simp add: Mux_Init_DefaultHandler)
  with route miss served show ?thesis by simp
qed

theorem no_route_uses_default_handler_witness:
  "fst (router (Mux_Init (oneMux (itemsRoute getItem))) ''GET'' ''items/7/extra'') = None \<and>
   ServeHTTP exampleLib (oneMux (itemsRoute getItem))
     (getRequest ''/items/7/extra'' jsonHeader) 0 = (Inr (Delegated DefaultServeMux), 0)"
  using no_route_uses_default_handler
          [of "getRequest ''/items/7/extra'' jsonHeader" "oneMux (itemsRoute getItem)"
              exampleLib 0]
  by (simp add: Mux_Init_oneMux getRequest_def oneRouter_def itemsRoute_def HasPrefix_def)

text \<open>
  C7, as stated, fails: the request \<open>GET /items/7\<close> with no body and no
  \<open>Content-Type\<close> header finds its route and is answered with the error of kind
  \<open>UnsupportedContentType\<close>.
\<close>

theorem content_type_counterexample:
  "reqBody (getRequest ''/items/7'' emptyHeader) = Inr [] \<and>
   reqHeader (getRequest ''/items/7'' emptyHeader) ''Content-Type'' = None \<and>
   Mux_route (Mux_Init (oneMux (itemsRoute getItem))) ''GET'' ''/items/7'' =
     (Some (itemsRoute getItem), [''7''], None) \<and>
   serve exampleLib (Mux_Init (oneMux (itemsRoute getItem))) (getRequest ''/items/7'' emptyHeader) 0 =
     (Inr (RespondError UnsupportedContentType 400 (Some (unsupportedContentType []))), 0) \<and>
   ServeHTTP exampleLib (oneMux (itemsRoute getItem)) (getRequest ''/items/7'' emptyHeader) 0 =
     (Inr (HttpError (unsupportedContentType []) 400), 0)"
proof -
  have route: "Mux_route (Mux_Init (oneMux (itemsRoute getItem)))
                 (reqMethod (getRequest ''/items/7'' emptyHeader))
                 (URLPath (getRequest ''/items/7'' emptyHeader)) =
               (Some (itemsRoute getItem), [''7''], None)"
    by (simp add: getRequest_def route_items_7)
  have served: "serve exampleLib (Mux_Init (oneMux (itemsRoute getItem)))
                  (getRequest ''/items/7'' emptyHeader) 0 =
     (Inr (RespondError UnsupportedContentType 400 (Some (unsupportedContentType []))), 0)"
    using serve_route [OF route, of exampleLib 0]
    by (simp add: getRequest_def Get_def emptyHeader_def StatusBadRequest_def)
  have "ServeHTTP exampleLib (oneMux (itemsRoute getItem)) (getRequest ''/items/7'' emptyHeader) 0 =
     (Inr (HttpError (unsupportedContentType []) 400), 0)"
    using served
    by (simp add: ServeHTTP_def answer_def respondError_def Mux_Init_oneMux
          unsupportedContentType_def)
  moreover have "reqHeader (getRequest ''/items/7'' emptyHeader) ''Content-Type'' = None"
    by (simp add: getRequest_def emptyHeader_def)
  moreover have "reqBody (getRequest ''/items/7'' emptyHeader) = Inr []"
    by (simp add: getRequest_def)
  ultimately show ?thesis using served route_items_7 [of getItem] by simp
qed

text \<open>
  C7, amended: a request that finds its route is answered with an error of kind
  \<open>UnsupportedContentType\<close> if and only if its \<open>Content-Type\<close> header is not
  \<open>application/json\<close>, whatever its body is and whether it has one.
\<close>

theorem content_type_rejected_iff:
  assumes "Mux_route mux (reqMethod req) (URLPath req) = (Some route, args, None)"
  shows
    "((\<exists>code err. fst (serve lib mux req s) = Inr (RespondError UnsupportedContentType code err))
        \<longleftrightarrow> Get (reqHeader req) ''Content-Type'' \<noteq> ''application/json'') \<and>
     (Get (reqHeader req) ''Content-Type'' \<noteq> ''application/json'' \<longrightarrow>
        serve lib mux req s =
          (Inr (RespondError UnsupportedContentType StatusBadRequest
                  (Some (unsupportedContentType (Get (reqHeader req) ''Content-Type'')))), s))"
proof (cases "Get (reqHeader req) ''Content-Type'' \<noteq> ''application/json''")
  case True
  with serve_route [OF assms, of lib s] show ?thesis by simp
next
  case False
  note json = False
  have "fst (serve lib mux req s) \<noteq> Inr (RespondError UnsupportedContentType code err)"
    for code err
  proof (cases "reqBody req")
    case (Inl e)
    with serve_route [OF assms, of lib s] json show ?thesis by simp
  next
    case (Inr body)
    obtain res s1 where inv: "invoke lib route args body s = (res, s1)"
      by (cases "invoke lib route args body s")
    show ?thesis
    proof (cases res)
      case (Inl p)
      with serve_route [OF assms, of lib s] json \<open>reqBody req = Inr body\<close> inv
      show ?thesis by simp
    next
      case (Inr pair)
      obtain resp e where pair: "pair = (resp, e)" by (cases pair)
      show ?thesis
      proof (cases e)
        case None
        with serve_route [OF assms, of lib s] json \<open>reqBody req = Inr body\<close> inv Inr pair
        show ?thesis by simp
      next
        case (Some restError)
        from inv Inr pair Some
        have "invoke lib route args body s = (Inr (resp, Some restError), s1)" by simp
        from invoke_kinds [OF this]
        have "Type restError \<noteq> UnsupportedContentType" by auto
        with serve_route [OF assms, of lib s] json \<open>reqBody req = Inr body\<close> inv Inr pair Some
        show ?thesis by simp
      qed
    qed
  qed
  with json show ?thesis by simp
qed

theorem content_type_rejected_iff_witness:
  "serve exampleLib (Mux_Init (oneMux (itemsRoute getItem))) (getRequest ''/items/7'' emptyHeader) 0 =
     (Inr (RespondError UnsupportedContentType StatusBadRequest
             (Some (unsupportedContentType []))), 0) \<and>
   (\<forall>code err. fst (serve exampleLib (Mux_Init (oneMux (itemsRoute getItem)))
                       (getRequest ''/items/7'' jsonHeader) 0) \<noteq>
                 Inr (RespondError UnsupportedContentType code err))"
  using content_type_rejected_iff
          [of "Mux_Init (oneMux (itemsRoute getItem))" "getRequest ''/items/7'' emptyHeader"
              "itemsRoute getItem" "[''7'']" exampleLib 0]
    content_type_rejected_iff
          [of "Mux_Init (oneMux (itemsRoute getItem))" "getRequest ''/items/7'' jsonHeader"
              "itemsRoute getItem" "[''7'']" exampleLib 0]
    route_items_7 [of getItem]
  by (simp add: getRequest_def Get_def emptyHeader_def jsonHeader_def)


text \<open>
  When the error that \<open>respondError\<close> ends with is nil, or is a \<open>*CodedError\<close> whose
  \<open>Sub\<close> is nil, the call \<open>err.Error()\<close> panics and \<open>http.Error\<close> is not reached.
\<close>

lemma respondError_nil:
  assumes "(case ErrorFunc mux of None \<Rightarrow> err | Some f \<Rightarrow> f t err) = None \<or>
           (\<exists>c. (case ErrorFunc mux of None \<Rightarrow> err | Some f \<Rightarrow> f t err) =
                   Some (CodedError c None))"
  shows "respondError mux t code err = Inl NilPointer"
  using assms by (auto simp add: respondError_def)



end
